theory Spec2Isabelle
  imports Complex_Main "HOL-Library.Word"
begin

section \<open>Failures of the C++ code as values\<close>

text \<open>
  Every way in which the modelled functions stop instead of returning is an \<open>error\<close>:
  a failed \<open>assert\<close> of the source, a failed range or size check of the Eigen
  library (\<open>block\<close>, \<open>segment\<close>, \<open>col\<close>, sums, products and assignments to
  fixed-size views check their shapes), dereferencing the end iterator that
  \<open>find\<close> returns for a missing key, the two failures of \<open>std::thread\<close>
  (assigning to a joinable thread, joining a thread that is not joinable), the conversion
  to \<open>int\<close> of a \<open>double\<close> that no \<open>int\<close> represents, and a result with infinite
  coefficients, which the scalar type of the model does not have. The assertions are
  those of a build that keeps them.
\<close>

datatype error =
    AssertionFailed
  | IndexOutOfRange
  | DimensionMismatch
  | KeyNotFound
  | ThreadTerminate
  | ThreadNotJoinable
  | ConversionUndefined
  | NonFinite

definition andThen :: "error + 'a \<Rightarrow> ('a \<Rightarrow> error + 'b) \<Rightarrow> error + 'b" where
  "andThen m f = (case m of Inl e \<Rightarrow> Inl e | Inr x \<Rightarrow> f x)"

section \<open>Dense matrices and vectors (Eigen::MatrixXd, Eigen::VectorXd)\<close>

text \<open>
  A dynamic matrix carries its two dimensions (an \<open>n \<times> 0\<close> and a \<open>0 \<times> n\<close> matrix are
  different objects) and its coefficients, here as a list of rows. The scalar type is a
  parameter \<open>'a\<close>; where the source computes with \<open>double\<close>, the operations are those of
  the type class the definition asks for (exact arithmetic stands in for rounding).
  A vector is a list.
\<close>

record 'a matrix =
  rows :: nat
  cols :: nat
  coeffs :: "'a list list"

definition mk_matrix :: "nat \<Rightarrow> nat \<Rightarrow> (nat \<Rightarrow> nat \<Rightarrow> 'a) \<Rightarrow> 'a matrix" where
  "mk_matrix r c f = \<lparr>rows = r, cols = c, coeffs = map (\<lambda>i. map (f i) [0..<c]) [0..<r]\<rparr>"

definition coeff :: "'a matrix \<Rightarrow> nat \<Rightarrow> nat \<Rightarrow> 'a" where
  "coeff M i j = coeffs M ! i ! j"

definition wf_matrix :: "'a matrix \<Rightarrow> bool" where
  "wf_matrix M \<longleftrightarrow>
     length (coeffs M) = rows M \<and> list_all (\<lambda>r. length r = cols M) (coeffs M)"

text \<open>\<open>M.size()\<close>: the number of coefficients.\<close>

definition msize :: "'a matrix \<Rightarrow> nat" where
  "msize M = rows M * cols M"

text \<open>
  \<open>Eigen::MatrixXd(r, c)\<close> allocates without initialising. The content of fresh storage
  is the parameter \<open>junk\<close>, indexed by the position in the column-major array.
\<close>

definition Uninitialized :: "(nat \<Rightarrow> 'a) \<Rightarrow> nat \<Rightarrow> nat \<Rightarrow> 'a matrix" where
  "Uninitialized junk r c = mk_matrix r c (\<lambda>i j. junk (i + j * r))"

definition UninitializedVec :: "(nat \<Rightarrow> 'a) \<Rightarrow> nat \<Rightarrow> 'a list" where
  "UninitializedVec junk n = map junk [0..<n]"

definition Zero :: "nat \<Rightarrow> nat \<Rightarrow> ('a::zero) matrix" where
  "Zero r c = mk_matrix r c (\<lambda>i j. 0)"

definition Identity :: "nat \<Rightarrow> nat \<Rightarrow> ('a::{zero,one}) matrix" where
  "Identity r c = mk_matrix r c (\<lambda>i j. if i = j then 1 else 0)"

definition transpose_m :: "'a matrix \<Rightarrow> 'a matrix" where
  "transpose_m M = mk_matrix (cols M) (rows M) (\<lambda>i j. coeff M j i)"

definition scale :: "('a::times) \<Rightarrow> 'a matrix \<Rightarrow> 'a matrix" where
  "scale a M = mk_matrix (rows M) (cols M) (\<lambda>i j. a * coeff M i j)"

definition mat_add :: "('a::plus) matrix \<Rightarrow> 'a matrix \<Rightarrow> error + 'a matrix" where
  "mat_add A B =
     (if rows A = rows B \<and> cols A = cols B
      then Inr (mk_matrix (rows A) (cols A) (\<lambda>i j. coeff A i j + coeff B i j))
      else Inl DimensionMismatch)"

definition mat_sub :: "('a::minus) matrix \<Rightarrow> 'a matrix \<Rightarrow> error + 'a matrix" where
  "mat_sub A B =
     (if rows A = rows B \<and> cols A = cols B
      then Inr (mk_matrix (rows A) (cols A) (\<lambda>i j. coeff A i j - coeff B i j))
      else Inl DimensionMismatch)"

definition mat_mul :: "('a::{monoid_add,times}) matrix \<Rightarrow> 'a matrix \<Rightarrow> error + 'a matrix" where
  "mat_mul A B =
     (if cols A = rows B
      then Inr (mk_matrix (rows A) (cols B)
                  (\<lambda>i j. sum_list (map (\<lambda>k. coeff A i k * coeff B k j) [0..<cols A])))
      else Inl DimensionMismatch)"

definition asDiagonal :: "('a::zero) list \<Rightarrow> 'a matrix" where
  "asDiagonal v = mk_matrix (length v) (length v) (\<lambda>i j. if i = j then v ! i else 0)"

text \<open>\<open>S.block(r0, c0, h, w)\<close> read as a value.\<close>

definition block :: "'a matrix \<Rightarrow> nat \<Rightarrow> nat \<Rightarrow> nat \<Rightarrow> nat \<Rightarrow> error + 'a matrix" where
  "block S r0 c0 h w =
     (if r0 + h \<le> rows S \<and> c0 + w \<le> cols S
      then Inr (mk_matrix h w (\<lambda>i j. coeff S (r0 + i) (c0 + j)))
      else Inl IndexOutOfRange)"

text \<open>\<open>M.block(r0, c0, h, w) = B\<close>: the view is checked first, then the shape of \<open>B\<close>.\<close>

definition assign_block ::
  "'a matrix \<Rightarrow> nat \<Rightarrow> nat \<Rightarrow> nat \<Rightarrow> nat \<Rightarrow> 'a matrix \<Rightarrow> error + 'a matrix" where
  "assign_block M r0 c0 h w B =
     (if r0 + h \<le> rows M \<and> c0 + w \<le> cols M
      then (if rows B = h \<and> cols B = w
            then Inr (mk_matrix (rows M) (cols M)
                        (\<lambda>i j. if r0 \<le> i \<and> i < r0 + h \<and> c0 \<le> j \<and> j < c0 + w
                               then coeff B (i - r0) (j - c0) else coeff M i j))
            else Inl DimensionMismatch)
      else Inl IndexOutOfRange)"

text \<open>\<open>v.segment(start, n) = w\<close> on vectors.\<close>

definition assign_segment :: "'a list \<Rightarrow> nat \<Rightarrow> nat \<Rightarrow> 'a list \<Rightarrow> error + 'a list" where
  "assign_segment v start n w =
     (if start + n \<le> length v
      then (if length w = n
            then Inr (take start v @ w @ drop (start + n) v)
            else Inl DimensionMismatch)
      else Inl IndexOutOfRange)"

text \<open>\<open>xs[i]\<close> on a \<open>std::vector\<close>.\<close>

definition elemAt :: "'a list \<Rightarrow> nat \<Rightarrow> error + 'a" where
  "elemAt xs i = (if i < length xs then Inr (xs ! i) else Inl IndexOutOfRange)"

section \<open>Skeletons, constraint groups, world\<close>

text \<open>
  Of a skeleton the assembler reads its name, its number of degrees of freedom and its
  two mass matrices.
\<close>

record 'a Skeleton =
  name :: string
  numDofs :: nat
  massMatrix :: "'a matrix"
  invMassMatrix :: "'a matrix"

text \<open>
  Modelled from the spec: the class \<open>ConstrainedGroupGradientMatrices\<close> is declared
  outside the sources. A group supplies its matrices and vectors, as the constraint solver
  computed them, and its skeletons in group order; the fields are what its accessors
  return.
\<close>

record 'a ConstrainedGroupGradientMatrices =
  skeletons :: "'a Skeleton list"
  numConstraintDim :: nat
  clampingConstraintMatrix :: "'a matrix"
  massedClampingConstraintMatrix :: "'a matrix"
  upperBoundConstraintMatrix :: "'a matrix"
  massedUpperBoundConstraintMatrix :: "'a matrix"
  upperBoundMappingMatrix :: "'a matrix"
  bouncingConstraintMatrix :: "'a matrix"
  bounceDiagonals :: "'a list"
  restitutionDiagonals :: "'a list"
  contactConstraintImpluses :: "'a list"
  contactConstraintMappings :: "int list"

text \<open>
  A \<open>std::shared_ptr\<close> to a group is its address together with the group it points to;
  the null pointer is \<open>None\<close>. Pointers are compared by address.

  Modelled from the spec: the class \<open>World\<close> is declared outside the sources. The
  constructor of the snapshot reads its time step and its skeletons in order, each with
  the group pointer that \<open>getGradientConstraintMatrices\<close> returns.
\<close>

type_synonym 'a GroupPtr = "nat \<times> 'a ConstrainedGroupGradientMatrices"

record 'a World =
  timeStep :: 'a
  worldSkeletons :: "('a Skeleton \<times> 'a GroupPtr option) list"

section \<open>BackpropSnapshot\<close>

record 'a BackpropSnapshot =
  mTimeStep :: 'a
  mForwardPassPosition :: "'a list"
  mForwardPassVelocity :: "'a list"
  mForwardPassTorques :: "'a list"
  mNumDOFs :: nat
  mNumConstraintDim :: nat
  mNumClamping :: nat
  mNumUpperBound :: nat
  mNumBouncing :: nat
  mSkeletons :: "'a Skeleton list"
  mSkeletonOffset :: "string \<rightharpoonup> nat"
  mGradientMatrices :: "'a GroupPtr list"

text \<open>
  One turn of the constructor's loop. \<open>insert\<close> on the offset map keeps an entry that is
  already there; a group is appended only if its address is not yet in the list.
\<close>

definition collectSkeleton ::
  "'a Skeleton \<times> 'a GroupPtr option \<Rightarrow> 'a BackpropSnapshot \<Rightarrow> 'a BackpropSnapshot" where
  "collectSkeleton entry s =
     (let skel = fst entry;
          s1 = s\<lparr>mSkeletons := mSkeletons s @ [skel],
                 mSkeletonOffset :=
                   (case mSkeletonOffset s (name skel) of
                      None \<Rightarrow> (mSkeletonOffset s)(name skel \<mapsto> mNumDOFs s)
                    | Some old \<Rightarrow> mSkeletonOffset s),
                 mNumDOFs := mNumDOFs s + numDofs skel\<rparr>
      in case snd entry of
           None \<Rightarrow> s1
         | Some gradientMatrix \<Rightarrow>
             if fst gradientMatrix \<in> set (map fst (mGradientMatrices s1)) then s1
             else s1\<lparr>mGradientMatrices := mGradientMatrices s1 @ [gradientMatrix],
                     mNumConstraintDim :=
                       mNumConstraintDim s1 + numConstraintDim (snd gradientMatrix),
                     mNumClamping :=
                       mNumClamping s1 + cols (clampingConstraintMatrix (snd gradientMatrix)),
                     mNumUpperBound :=
                       mNumUpperBound s1 + cols (upperBoundConstraintMatrix (snd gradientMatrix)),
                     mNumBouncing :=
                       mNumBouncing s1 + cols (bouncingConstraintMatrix (snd gradientMatrix))\<rparr>)"

definition emptySnapshot :: "'a World \<Rightarrow> 'a list \<Rightarrow> 'a list \<Rightarrow> 'a list \<Rightarrow> 'a BackpropSnapshot" where
  "emptySnapshot world forwardPassPosition forwardPassVelocity forwardPassTorques =
     \<lparr>mTimeStep = timeStep world,
      mForwardPassPosition = forwardPassPosition,
      mForwardPassVelocity = forwardPassVelocity,
      mForwardPassTorques = forwardPassTorques,
      mNumDOFs = 0, mNumConstraintDim = 0, mNumClamping = 0, mNumUpperBound = 0,
      mNumBouncing = 0, mSkeletons = [], mSkeletonOffset = Map.empty,
      mGradientMatrices = []\<rparr>"

definition newBackpropSnapshot ::
  "'a World \<Rightarrow> 'a list \<Rightarrow> 'a list \<Rightarrow> 'a list \<Rightarrow> 'a BackpropSnapshot" where
  "newBackpropSnapshot world forwardPassPosition forwardPassVelocity forwardPassTorques =
     fold collectSkeleton (worldSkeletons world)
       (emptySnapshot world forwardPassPosition forwardPassVelocity forwardPassTorques)"

subsection \<open>Vector assembly\<close>

text \<open>
  Modelled from the spec: the declaration of the enumeration \<open>VectorToAssemble\<close> is in a
  header that is not among the sources; its members are the four kinds the source names.
\<close>

datatype VectorToAssemble =
    CONTACT_CONSTRAINT_IMPULSES
  | CONTACT_CONSTRAINT_MAPPINGS
  | BOUNCE_DIAGONALS
  | RESTITUTION_DIAGONALS

text \<open>
  The two specialisations of \<open>getVectorToAssemble\<close>. After its three cases the real-valued
  one asserts that the kind is not the mapping kind and returns an empty vector.
\<close>

definition getVectorToAssemble_VectorXd ::
  "'a ConstrainedGroupGradientMatrices \<Rightarrow> VectorToAssemble \<Rightarrow> error + 'a list" where
  "getVectorToAssemble_VectorXd matrices whichVector =
     (if whichVector = BOUNCE_DIAGONALS then Inr (bounceDiagonals matrices)
      else if whichVector = RESTITUTION_DIAGONALS then Inr (restitutionDiagonals matrices)
      else if whichVector = CONTACT_CONSTRAINT_IMPULSES
        then Inr (contactConstraintImpluses matrices)
      else if whichVector \<noteq> CONTACT_CONSTRAINT_MAPPINGS then Inr []
      else Inl AssertionFailed)"

definition getVectorToAssemble_VectorXi ::
  "'a ConstrainedGroupGradientMatrices \<Rightarrow> VectorToAssemble \<Rightarrow> error + int list" where
  "getVectorToAssemble_VectorXi matrices whichVector =
     (if whichVector = CONTACT_CONSTRAINT_MAPPINGS
      then Inr (contactConstraintMappings matrices)
      else Inl AssertionFailed)"

text \<open>
  A \<open>for\<close> loop over the elements or the indices of a sequence: the body takes the
  element and the loop's variables and returns them updated, or fails, which ends the loop.
\<close>

fun forEach :: "'x list \<Rightarrow> ('x \<Rightarrow> 'st \<Rightarrow> error + 'st) \<Rightarrow> 'st \<Rightarrow> error + 'st" where
  "forEach [] body st = Inr st"
| "forEach (x # xs) body st = andThen (body x st) (forEach xs body)"

text \<open>
  The first loop of \<open>assembleVector\<close>: at every index it adds the length of the vector
  of the group at position \<open>0\<close>.
\<close>

definition sizeLoopBody ::
  "('g \<Rightarrow> error + 'v list) \<Rightarrow> 'g list \<Rightarrow> nat \<Rightarrow> nat \<Rightarrow> error + nat" where
  "sizeLoopBody getv groups i sz =
     andThen (elemAt groups 0) (\<lambda>g.
     andThen (getv g) (\<lambda>vec.
     Inr (sz + length vec)))"

text \<open>
  The second loop: copy the vector of group \<open>i\<close> at the cursor, advance the cursor. The
  loop's variables are the collected vector and the cursor.
\<close>

definition collectLoopBody ::
  "('g \<Rightarrow> error + 'v list) \<Rightarrow> 'g list \<Rightarrow> nat \<Rightarrow> 'v list \<times> nat \<Rightarrow> error + 'v list \<times> nat" where
  "collectLoopBody getv groups i st =
     andThen (elemAt groups i) (\<lambda>g.
     andThen (getv g) (\<lambda>vec.
     andThen (assign_segment (fst st) (snd st) (length vec) vec) (\<lambda>collected.
     Inr (collected, snd st + length vec))))"

text \<open>
  \<open>assembleVector\<close> is a template over the vector type; the accessor \<open>getv\<close> is the
  specialisation of \<open>getVectorToAssemble\<close> for that type, at the requested kind.
\<close>

definition assembleVector ::
  "('g \<Rightarrow> error + 'v list) \<Rightarrow> (nat \<Rightarrow> 'v) \<Rightarrow> 'g list \<Rightarrow> error + 'v list" where
  "assembleVector getv junk groups =
     (if length groups = 1 then andThen (elemAt groups 0) getv
      else andThen (forEach [0..<length groups] (sizeLoopBody getv groups) 0) (\<lambda>sz.
           andThen (forEach [0..<length groups] (collectLoopBody getv groups)
                      (UninitializedVec junk sz, 0)) (\<lambda>st.
           Inr (fst st))))"

definition assembleVector_VectorXd ::
  "(nat \<Rightarrow> 'a) \<Rightarrow> 'a BackpropSnapshot \<Rightarrow> VectorToAssemble \<Rightarrow> error + 'a list" where
  "assembleVector_VectorXd junk s whichVector =
     assembleVector (\<lambda>g. getVectorToAssemble_VectorXd g whichVector) junk
       (map snd (mGradientMatrices s))"

definition assembleVector_VectorXi ::
  "(nat \<Rightarrow> int) \<Rightarrow> 'a BackpropSnapshot \<Rightarrow> VectorToAssemble \<Rightarrow> error + int list" where
  "assembleVector_VectorXi junk s whichVector =
     assembleVector (\<lambda>g. getVectorToAssemble_VectorXi g whichVector) junk
       (map snd (mGradientMatrices s))"

definition getContactConstraintImpluses ::
  "(nat \<Rightarrow> 'a) \<Rightarrow> 'a BackpropSnapshot \<Rightarrow> error + 'a list" where
  "getContactConstraintImpluses junk s =
     assembleVector_VectorXd junk s CONTACT_CONSTRAINT_IMPULSES"

definition getContactConstraintMappings ::
  "(nat \<Rightarrow> int) \<Rightarrow> 'a BackpropSnapshot \<Rightarrow> error + int list" where
  "getContactConstraintMappings junk s =
     assembleVector_VectorXi junk s CONTACT_CONSTRAINT_MAPPINGS"

definition getBounceDiagonals :: "(nat \<Rightarrow> 'a) \<Rightarrow> 'a BackpropSnapshot \<Rightarrow> error + 'a list" where
  "getBounceDiagonals junk s = assembleVector_VectorXd junk s BOUNCE_DIAGONALS"

definition getRestitutionDiagonals ::
  "(nat \<Rightarrow> 'a) \<Rightarrow> 'a BackpropSnapshot \<Rightarrow> error + 'a list" where
  "getRestitutionDiagonals junk s = assembleVector_VectorXd junk s RESTITUTION_DIAGONALS"

subsection \<open>Matrix assembly\<close>

text \<open>
  Modelled from the spec: the declaration of the enumeration \<open>MatrixToAssemble\<close> is in a
  header that is not among the sources; its members are the five kinds the source names.
\<close>

datatype MatrixToAssemble =
    CLAMPING
  | MASSED_CLAMPING
  | UPPER_BOUND
  | MASSED_UPPER_BOUND
  | BOUNCING

text \<open>\<open>mSkeletonOffset.find(name)->second\<close>.\<close>

definition findOffset :: "(string \<rightharpoonup> nat) \<Rightarrow> string \<Rightarrow> error + nat" where
  "findOffset offsets key = (case offsets key of None \<Rightarrow> Inl KeyNotFound | Some v \<Rightarrow> Inr v)"

text \<open>
  The group's matrix of the requested kind; a kind outside the five leaves the
  default-constructed (empty) matrix.
\<close>

definition groupMatrixOf ::
  "MatrixToAssemble \<Rightarrow> ('a::zero) ConstrainedGroupGradientMatrices \<Rightarrow> 'a matrix" where
  "groupMatrixOf whichMatrix g =
     (if whichMatrix = CLAMPING then clampingConstraintMatrix g
      else if whichMatrix = MASSED_CLAMPING then massedClampingConstraintMatrix g
      else if whichMatrix = UPPER_BOUND then upperBoundConstraintMatrix g
      else if whichMatrix = MASSED_UPPER_BOUND then massedUpperBoundConstraintMatrix g
      else if whichMatrix = BOUNCING then bouncingConstraintMatrix g
      else Zero 0 0)"

text \<open>
  The inner loop of \<open>assembleMatrix\<close>, over the skeletons of one group; its variables
  are the world matrix and \<open>dofCursorGroup\<close>.
\<close>

definition shuffleSkeleton ::
  "(string \<rightharpoonup> nat) \<Rightarrow> 'a matrix \<Rightarrow> nat \<Rightarrow> 'a Skeleton \<Rightarrow> 'a matrix \<times> nat
     \<Rightarrow> error + 'a matrix \<times> nat" where
  "shuffleSkeleton offsets groupMatrix constraintCursor skel st =
     andThen (findOffset offsets (name skel)) (\<lambda>dofCursorWorld.
     andThen (block groupMatrix (snd st) 0 (numDofs skel) (cols groupMatrix)) (\<lambda>source.
     andThen (assign_block (fst st) dofCursorWorld constraintCursor
                (numDofs skel) (cols groupMatrix) source) (\<lambda>matrix.
     Inr (matrix, snd st + numDofs skel))))"

text \<open>The outer loop, over the groups; its variables are the matrix and \<open>constraintCursor\<close>.\<close>

definition shuffleGroup ::
  "(string \<rightharpoonup> nat) \<Rightarrow> MatrixToAssemble \<Rightarrow> ('a::zero) GroupPtr \<Rightarrow> 'a matrix \<times> nat
     \<Rightarrow> error + 'a matrix \<times> nat" where
  "shuffleGroup offsets whichMatrix grp st =
     (let groupMatrix = groupMatrixOf whichMatrix (snd grp)
      in andThen (forEach (skeletons (snd grp))
                    (shuffleSkeleton offsets groupMatrix (snd st)) (fst st, 0)) (\<lambda>inner.
         Inr (fst inner, snd st + cols groupMatrix)))"

definition assembleMatrix ::
  "('a::zero) BackpropSnapshot \<Rightarrow> MatrixToAssemble \<Rightarrow> error + 'a matrix" where
  "assembleMatrix s whichMatrix =
     (let numCols =
            (if whichMatrix = CLAMPING \<or> whichMatrix = MASSED_CLAMPING then mNumClamping s
             else if whichMatrix = UPPER_BOUND \<or> whichMatrix = MASSED_UPPER_BOUND
               then mNumUpperBound s
             else if whichMatrix = BOUNCING then mNumBouncing s
             else 0)
      in andThen (forEach (mGradientMatrices s)
                    (shuffleGroup (mSkeletonOffset s) whichMatrix)
                    (Zero (mNumDOFs s) numCols, 0)) (\<lambda>st.
         Inr (fst st)))"

definition getClampingConstraintMatrix ::
  "('a::zero) BackpropSnapshot \<Rightarrow> error + 'a matrix" where
  "getClampingConstraintMatrix s = assembleMatrix s CLAMPING"

definition getMassedClampingConstraintMatrix ::
  "('a::zero) BackpropSnapshot \<Rightarrow> error + 'a matrix" where
  "getMassedClampingConstraintMatrix s = assembleMatrix s MASSED_CLAMPING"

definition getUpperBoundConstraintMatrix ::
  "('a::zero) BackpropSnapshot \<Rightarrow> error + 'a matrix" where
  "getUpperBoundConstraintMatrix s = assembleMatrix s UPPER_BOUND"

definition getMassedUpperBoundConstraintMatrix ::
  "('a::zero) BackpropSnapshot \<Rightarrow> error + 'a matrix" where
  "getMassedUpperBoundConstraintMatrix s = assembleMatrix s MASSED_UPPER_BOUND"

definition getBouncingConstraintMatrix ::
  "('a::zero) BackpropSnapshot \<Rightarrow> error + 'a matrix" where
  "getBouncingConstraintMatrix s = assembleMatrix s BOUNCING"

text \<open>
  \<open>getUpperBoundMappingMatrix\<close>: the dimensions are summed over the groups' upper-bound
  and clamping matrices; the cursors advance by the dimensions of each group's mapping.
\<close>

definition placeMapping ::
  "'a GroupPtr \<Rightarrow> 'a matrix \<times> nat \<times> nat \<Rightarrow> error + 'a matrix \<times> nat \<times> nat" where
  "placeMapping grp st =
     (let groupMappingMatrix = upperBoundMappingMatrix (snd grp);
          cursorUpperBound = fst (snd st);
          cursorClamping = snd (snd st)
      in andThen (assign_block (fst st) cursorUpperBound cursorClamping
                    (rows groupMappingMatrix) (cols groupMappingMatrix) groupMappingMatrix)
           (\<lambda>mappingMatrix.
         Inr (mappingMatrix, cursorUpperBound + rows groupMappingMatrix,
              cursorClamping + cols groupMappingMatrix)))"

definition getUpperBoundMappingMatrix ::
  "('a::zero) BackpropSnapshot \<Rightarrow> error + 'a matrix" where
  "getUpperBoundMappingMatrix s =
     (let numUpperBound =
            sum_list (map (\<lambda>g. cols (upperBoundConstraintMatrix (snd g))) (mGradientMatrices s));
          numClamping =
            sum_list (map (\<lambda>g. cols (clampingConstraintMatrix (snd g))) (mGradientMatrices s))
      in andThen (forEach (mGradientMatrices s) placeMapping
                    (Zero numUpperBound numClamping, 0, 0)) (\<lambda>st.
         Inr (fst st)))"

subsection \<open>World mass matrices\<close>

text \<open>
  One turn of the loop of \<open>getMassMatrix\<close> and \<open>getInvMassMatrix\<close>: the skeleton's
  matrix, picked by \<open>pick\<close>, is assigned to the square block at the cursor.
\<close>

definition placeSkeletonBlock ::
  "('a Skeleton \<Rightarrow> 'a matrix) \<Rightarrow> 'a Skeleton \<Rightarrow> 'a matrix \<times> nat \<Rightarrow> error + 'a matrix \<times> nat" where
  "placeSkeletonBlock pick skel st =
     (let skelDOF = numDofs skel
      in andThen (assign_block (fst st) (snd st) (snd st) skelDOF skelDOF (pick skel))
           (\<lambda>m. Inr (m, snd st + skelDOF)))"

definition getMassMatrix :: "('a::zero) BackpropSnapshot \<Rightarrow> error + 'a matrix" where
  "getMassMatrix s =
     andThen (forEach (mSkeletons s) (placeSkeletonBlock massMatrix)
                (Zero (mNumDOFs s) (mNumDOFs s), 0)) (\<lambda>st.
     Inr (fst st))"

definition getInvMassMatrix :: "('a::zero) BackpropSnapshot \<Rightarrow> error + 'a matrix" where
  "getInvMassMatrix s =
     andThen (forEach (mSkeletons s) (placeSkeletonBlock invMassMatrix)
                (Zero (mNumDOFs s) (mNumDOFs s), 0)) (\<lambda>st.
     Inr (fst st))"

subsection \<open>Jacobians\<close>

text \<open>
  The complete orthogonal decomposition belongs to the Eigen library. Its pseudo-inverse
  of an \<open>r \<times> c\<close> matrix is a \<open>c \<times> r\<close> matrix and its solution of a system with an
  \<open>r \<times> c\<close> matrix is a vector of length \<open>c\<close> (the right-hand side must have length \<open>r\<close>);
  the coefficients are given by the parameters \<open>pinv\<close> and \<open>solve\<close>.
\<close>

definition pseudoInverse :: "('a matrix \<Rightarrow> nat \<Rightarrow> nat \<Rightarrow> 'a) \<Rightarrow> 'a matrix \<Rightarrow> 'a matrix" where
  "pseudoInverse pinv F = mk_matrix (cols F) (rows F) (pinv F)"

definition codSolve ::
  "('a matrix \<Rightarrow> 'a list \<Rightarrow> nat \<Rightarrow> 'a) \<Rightarrow> 'a matrix \<Rightarrow> 'a list \<Rightarrow> error + 'a list" where
  "codSolve solve A b =
     (if rows A = length b then Inr (map (solve A b) [0..<cols A])
      else Inl DimensionMismatch)"

text \<open>
  \<open>(1.0 / h) * M\<close>: for \<open>h = 0\<close> the factor is infinite, and so are the coefficients of
  a matrix that has any.
\<close>

definition scaleByInverse :: "('a::field) \<Rightarrow> 'a matrix \<Rightarrow> error + 'a matrix" where
  "scaleByInverse h M =
     (if h = 0 \<and> msize M > 0 then Inl NonFinite else Inr (scale (1 / h) M))"

definition getProjectionIntoClampsMatrix ::
  "(('a::field) matrix \<Rightarrow> nat \<Rightarrow> nat \<Rightarrow> 'a) \<Rightarrow> (nat \<Rightarrow> 'a) \<Rightarrow> 'a BackpropSnapshot
     \<Rightarrow> error + 'a matrix" where
  "getProjectionIntoClampsMatrix pinv junk s =
     andThen (getClampingConstraintMatrix s) (\<lambda>A_c.
     andThen (getMassedClampingConstraintMatrix s) (\<lambda>V_c.
     andThen (getMassedUpperBoundConstraintMatrix s) (\<lambda>V_ub.
     andThen (getUpperBoundMappingMatrix s) (\<lambda>E.
     andThen (mat_mul V_ub E) (\<lambda>V_ub_E.
     andThen (mat_add V_c V_ub_E) (\<lambda>constraintForceToImpliedTorques.
     andThen (mat_mul (transpose_m A_c) constraintForceToImpliedTorques) (\<lambda>forceToVel.
     let velToForce = pseudoInverse pinv forceToVel
     in andThen (getBounceDiagonals junk s) (\<lambda>diagonals.
        let bounce = asDiagonal diagonals
        in andThen (scaleByInverse (mTimeStep s) velToForce) (\<lambda>scaledVelToForce.
           andThen (mat_mul scaledVelToForce bounce) (\<lambda>scaled.
           mat_mul scaled (transpose_m A_c)))))))))))"

definition getForceVelJacobian ::
  "(('a::field) matrix \<Rightarrow> nat \<Rightarrow> nat \<Rightarrow> 'a) \<Rightarrow> (nat \<Rightarrow> 'a) \<Rightarrow> 'a BackpropSnapshot
     \<Rightarrow> error + 'a matrix" where
  "getForceVelJacobian pinv junk s =
     andThen (getClampingConstraintMatrix s) (\<lambda>A_c.
     andThen (getUpperBoundConstraintMatrix s) (\<lambda>A_ub.
     andThen (getUpperBoundMappingMatrix s) (\<lambda>E.
     andThen (getProjectionIntoClampsMatrix pinv junk s) (\<lambda>P_c.
     andThen (getInvMassMatrix s) (\<lambda>Minv.
     if msize A_ub > 0 \<and> msize E > 0
     then andThen (mat_mul A_ub E) (\<lambda>A_ub_E.
          andThen (mat_add A_c A_ub_E) (\<lambda>total.
          andThen (mat_mul (scale (mTimeStep s) total) P_c) (\<lambda>p1.
          andThen (mat_mul p1 Minv) (\<lambda>p2.
          andThen (mat_sub (Identity (mNumDOFs s) (mNumDOFs s)) p2) (\<lambda>inner.
          mat_mul (scale (mTimeStep s) Minv) inner)))))
     else andThen (mat_mul (scale (mTimeStep s) A_c) P_c) (\<lambda>p1.
          andThen (mat_mul p1 Minv) (\<lambda>p2.
          andThen (mat_sub (Identity (mNumDOFs s) (mNumDOFs s)) p2) (\<lambda>inner.
          mat_mul (scale (mTimeStep s) Minv) inner))))))))"

definition getVelVelJacobian ::
  "(('a::field) matrix \<Rightarrow> nat \<Rightarrow> nat \<Rightarrow> 'a) \<Rightarrow> (nat \<Rightarrow> 'a) \<Rightarrow> 'a BackpropSnapshot
     \<Rightarrow> error + 'a matrix" where
  "getVelVelJacobian pinv junk s =
     andThen (getClampingConstraintMatrix s) (\<lambda>A_c.
     andThen (getUpperBoundConstraintMatrix s) (\<lambda>A_ub.
     andThen (getUpperBoundMappingMatrix s) (\<lambda>E.
     andThen (getProjectionIntoClampsMatrix pinv junk s) (\<lambda>P_c.
     andThen (getInvMassMatrix s) (\<lambda>Minv.
     let B = Identity (mNumDOFs s) (mNumDOFs s)
     in andThen (mat_mul A_ub E) (\<lambda>A_ub_E.
        andThen (mat_add A_c A_ub_E) (\<lambda>parts1.
        andThen (mat_mul (scale (mTimeStep s) Minv) parts1) (\<lambda>p.
        andThen (mat_mul p P_c) (\<lambda>parts2.
        andThen (mat_sub (Identity (mNumDOFs s) (mNumDOFs s)) parts2) (\<lambda>d.
        mat_mul d B))))))))))"

text \<open>Vectors: columns, segments, sums, products with a matrix.\<close>

definition col :: "'a matrix \<Rightarrow> nat \<Rightarrow> error + 'a list" where
  "col M j =
     (if j < cols M then Inr (map (\<lambda>i. coeff M i j) [0..<rows M]) else Inl IndexOutOfRange)"

definition colMatrix :: "'a list \<Rightarrow> 'a matrix" where
  "colMatrix v = mk_matrix (length v) 1 (\<lambda>i j. v ! i)"

definition segment :: "'a list \<Rightarrow> nat \<Rightarrow> nat \<Rightarrow> error + 'a list" where
  "segment v start n =
     (if start + n \<le> length v then Inr (take n (drop start v)) else Inl IndexOutOfRange)"

definition assign_col :: "'a matrix \<Rightarrow> nat \<Rightarrow> 'a list \<Rightarrow> error + 'a matrix" where
  "assign_col M j v =
     (if j < cols M
      then (if length v = rows M
            then Inr (mk_matrix (rows M) (cols M) (\<lambda>i k. if k = j then v ! i else coeff M i k))
            else Inl DimensionMismatch)
      else Inl IndexOutOfRange)"

definition assign_coeff :: "'a list \<Rightarrow> nat \<Rightarrow> 'a \<Rightarrow> error + 'a list" where
  "assign_coeff v k x = (if k < length v then Inr (v[k := x]) else Inl IndexOutOfRange)"

definition vec_add :: "('a::plus) list \<Rightarrow> 'a list \<Rightarrow> error + 'a list" where
  "vec_add v w =
     (if length v = length w then Inr (map2 (+) v w) else Inl DimensionMismatch)"

definition vec_sub :: "('a::minus) list \<Rightarrow> 'a list \<Rightarrow> error + 'a list" where
  "vec_sub v w =
     (if length v = length w then Inr (map2 (-) v w) else Inl DimensionMismatch)"

definition mat_vec_mul :: "('a::{monoid_add,times}) matrix \<Rightarrow> 'a list \<Rightarrow> error + 'a list" where
  "mat_vec_mul M v =
     (if cols M = length v
      then Inr (map (\<lambda>i. sum_list (map (\<lambda>k. coeff M i k * v ! k) [0..<cols M])) [0..<rows M])
      else Inl DimensionMismatch)"

text \<open>
  The loops that fill \<open>W\<close> in \<open>getPosPosJacobian\<close>: for column \<open>i\<close> of the bouncing
  matrix and row \<open>j\<close>, the block of \<open>W\<close> at \<open>(j * rows, i)\<close> of height \<open>rows\<close> and width
  \<open>1\<close> becomes \<open>a_i(j) * a_i\<close>.
\<close>

definition fillW_inner ::
  "('a::times) matrix \<Rightarrow> nat \<Rightarrow> 'a list \<Rightarrow> nat \<Rightarrow> 'a matrix \<Rightarrow> error + 'a matrix" where
  "fillW_inner A_b i a_i j W =
     andThen (elemAt a_i j) (\<lambda>a_ij.
     assign_block W (j * rows A_b) i (rows A_b) 1 (colMatrix (map (\<lambda>x. a_ij * x) a_i)))"

definition fillW_outer :: "('a::times) matrix \<Rightarrow> nat \<Rightarrow> 'a matrix \<Rightarrow> error + 'a matrix" where
  "fillW_outer A_b i W =
     andThen (col A_b i) (\<lambda>a_i.
     forEach [0..<rows A_b] (fillW_inner A_b i a_i) W)"

definition setCenter :: "nat \<Rightarrow> nat \<Rightarrow> ('a::one) list \<Rightarrow> error + 'a list" where
  "setCenter n i center = assign_coeff center ((i * n) + i) 1"

definition recoverColumn :: "nat \<Rightarrow> 'a list \<Rightarrow> nat \<Rightarrow> 'a matrix \<Rightarrow> error + 'a matrix" where
  "recoverColumn n q i X = andThen (segment q (i * n) n) (assign_col X i)"

text \<open>
  \<open>getPosPosJacobian\<close>. The three allocations without initialisation (\<open>W\<close>, the vector
  inside \<open>getRestitutionDiagonals\<close>, \<open>X\<close>) have their own fresh storage.
\<close>

definition getPosPosJacobian ::
  "(('a::field) matrix \<Rightarrow> 'a list \<Rightarrow> nat \<Rightarrow> 'a) \<Rightarrow> (nat \<Rightarrow> 'a) \<Rightarrow> (nat \<Rightarrow> 'a) \<Rightarrow> (nat \<Rightarrow> 'a)
     \<Rightarrow> 'a BackpropSnapshot \<Rightarrow> error + 'a matrix" where
  "getPosPosJacobian solve junkW junkV junkX s =
     andThen (getBouncingConstraintMatrix s) (\<lambda>A_b.
     if msize A_b = 0 then Inr (Identity (mNumDOFs s) (mNumDOFs s))
     else
       andThen (forEach [0..<cols A_b] (fillW_outer A_b)
                  (Uninitialized junkW (cols A_b) (rows A_b * rows A_b))) (\<lambda>W.
       andThen (forEach [0..<mNumDOFs s] (setCenter (mNumDOFs s))
                  (replicate (mNumDOFs s * mNumDOFs s) 0)) (\<lambda>center.
       andThen (getRestitutionDiagonals junkV s) (\<lambda>restitution.
       andThen (mat_vec_mul (transpose_m W) center) (\<lambda>Wc.
       andThen (vec_add restitution Wc) (\<lambda>rhs.
       andThen (codSolve solve (transpose_m W) rhs) (\<lambda>solution.
       andThen (vec_sub center solution) (\<lambda>q.
       forEach [0..<mNumDOFs s] (recoverColumn (mNumDOFs s) q)
         (Uninitialized junkX (mNumDOFs s) (mNumDOFs s))))))))))"

definition getVelPosJacobian ::
  "(('a::field) matrix \<Rightarrow> 'a list \<Rightarrow> nat \<Rightarrow> 'a) \<Rightarrow> (nat \<Rightarrow> 'a) \<Rightarrow> (nat \<Rightarrow> 'a) \<Rightarrow> (nat \<Rightarrow> 'a)
     \<Rightarrow> 'a BackpropSnapshot \<Rightarrow> error + 'a matrix" where
  "getVelPosJacobian solve junkW junkV junkX s =
     andThen (getPosPosJacobian solve junkW junkV junkX s) (\<lambda>J.
     Inr (scale (mTimeStep s) J))"

section \<open>SSID: the real-time estimation loop\<close>

text \<open>\<open>long\<close> is a 64-bit and \<open>int\<close> a 32-bit signed integer, read with \<open>sint\<close>.\<close>

type_synonym long = "64 word"
type_synonym cint = "32 word"

text \<open>
  Modelled from the spec: \<open>VectorLog\<close> is not among the sources. It is a store of
  fixed-width vectors by timestamp; \<open>record\<close> appends an entry. Its two queries,
  \<open>getValues\<close> and \<open>availableHistoryBefore\<close>, are parameters of the loop below.
\<close>

record 'a VectorLog =
  logDim :: int
  logEntries :: "(long \<times> 'a list) list"

definition newVectorLog :: "int \<Rightarrow> 'a VectorLog" where
  "newVectorLog d = \<lparr>logDim = d, logEntries = []\<rparr>"

definition logRecord :: "long \<Rightarrow> 'a list \<Rightarrow> 'a VectorLog \<Rightarrow> 'a VectorLog" where
  "logRecord now v l = l\<lparr>logEntries := logEntries l @ [(now, v)]\<rparr>"

text \<open>
  Modelled from the spec: the world as the estimation loop reads it, the values that
  \<open>getNumDofs\<close>, \<open>getTimeStep\<close> and \<open>getMasses\<close> return.
\<close>

record 'a SimWorld =
  getNumDofs :: nat
  getTimeStep :: 'a
  getMasses :: "'a list"

text \<open>The default optimizer with the settings the constructor gives it, or a caller's.\<close>

record 'a IPOptOptimizer =
  checkDerivatives :: bool
  suppressOutput :: bool
  tolerance :: 'a
  iterationLimit :: int
  recordFullDebugInfo :: bool
  recordIterations :: bool
  lbfgsHistoryLength :: int
  silenceOutput :: bool

datatype 'a Optimizer = IPOpt "'a IPOptOptimizer" | CallerOptimizer nat

text \<open>\<open>std::thread\<close>: not a thread (default-constructed or joined), or a running worker.\<close>

datatype thread = NotAThread | Joinable nat

text \<open>
  What the loop does to its collaborators and to the process, in order: output, threads,
  the calls on the problem and the optimizer, and the calls of the listeners.
\<close>

datatype 'a event =
    Print string
  | SpawnThread nat
  | JoinThread nat
  | NewMultiShot nat int int bool
  | SetParallelOperationsEnabled bool
  | PinForce nat "'a list"
  | SetMetadata string "'a matrix"
  | SetStartPos "'a list"
  | Optimize nat
  | GetRolloutCache
  | InferListener nat long "'a list" "'a list" "'a list" long

text \<open>
  Pointers to the loss, the problem and the solution, and the registered listeners, are
  addresses; the null pointer is \<open>None\<close>.
\<close>

record 'a SSID =
  mRunning :: bool
  mWorld :: "'a SimWorld"
  mLoss :: nat
  mPlanningHistoryMillis :: cint
  mSensorDim :: cint
  mSensorLog :: "'a VectorLog"
  mControlLog :: "'a VectorLog"
  mInitialPosEstimator :: "'a matrix \<Rightarrow> long \<Rightarrow> 'a list"
  mOptimizer :: "'a Optimizer"
  mProblem :: "nat option"
  mSolution :: "nat option"
  mOptimizationThread :: thread
  mInferListeners :: "nat list"

definition newSSID :: "('a::field) SimWorld \<Rightarrow> nat \<Rightarrow> cint \<Rightarrow> cint \<Rightarrow> 'a SSID" where
  "newSSID world loss planningHistoryMillis sensorDim =
     (let dofs = getNumDofs world
      in \<lparr>mRunning = False,
          mWorld = world,
          mLoss = loss,
          mPlanningHistoryMillis = planningHistoryMillis,
          mSensorDim = sensorDim,
          mSensorLog = newVectorLog (sint sensorDim),
          mControlLog = newVectorLog (int (getNumDofs world)),
          mInitialPosEstimator = (\<lambda>sensors time. replicate dofs 0),
          mOptimizer = IPOpt \<lparr>checkDerivatives = False, suppressOutput = True,
                              tolerance = 1 / 10 ^ 9, iterationLimit = 20,
                              recordFullDebugInfo = False, recordIterations = False,
                              lbfgsHistoryLength = 5, silenceOutput = True\<rparr>,
          mProblem = None,
          mSolution = None,
          mOptimizationThread = NotAThread,
          mInferListeners = []\<rparr>)"

definition setLoss :: "nat \<Rightarrow> 'a SSID \<Rightarrow> 'a SSID" where
  "setLoss loss s = s\<lparr>mLoss := loss\<rparr>"

definition setOptimizer :: "'a Optimizer \<Rightarrow> 'a SSID \<Rightarrow> 'a SSID" where
  "setOptimizer optimizer s = s\<lparr>mOptimizer := optimizer\<rparr>"

definition setProblem :: "nat option \<Rightarrow> 'a SSID \<Rightarrow> 'a SSID" where
  "setProblem problem s = s\<lparr>mProblem := problem\<rparr>"

definition setInitialPosEstimator :: "('a matrix \<Rightarrow> long \<Rightarrow> 'a list) \<Rightarrow> 'a SSID \<Rightarrow> 'a SSID" where
  "setInitialPosEstimator initialPosEstimator s =
     s\<lparr>mInitialPosEstimator := initialPosEstimator\<rparr>"

definition registerSensors :: "long \<Rightarrow> 'a list \<Rightarrow> 'a SSID \<Rightarrow> 'a SSID" where
  "registerSensors now sensors s = s\<lparr>mSensorLog := logRecord now sensors (mSensorLog s)\<rparr>"

definition registerControls :: "long \<Rightarrow> 'a list \<Rightarrow> 'a SSID \<Rightarrow> 'a SSID" where
  "registerControls now controls s =
     s\<lparr>mControlLog := logRecord now controls (mControlLog s)\<rparr>"

definition registerInferListener :: "nat \<Rightarrow> 'a SSID \<Rightarrow> 'a SSID" where
  "registerInferListener inferListener s =
     s\<lparr>mInferListeners := mInferListeners s @ [inferListener]\<rparr>"

text \<open>
  \<open>start\<close>: \<open>worker\<close> identifies the thread that is created. Assigning to a
  \<open>std::thread\<close> that is still joinable terminates the process.
\<close>

definition start :: "nat \<Rightarrow> 'a SSID \<Rightarrow> error + 'a SSID \<times> 'a event list" where
  "start worker s =
     (if mRunning s then Inr (s, [])
      else (case mOptimizationThread s of
              Joinable old \<Rightarrow> Inl ThreadTerminate
            | NotAThread \<Rightarrow>
                Inr (s\<lparr>mRunning := True, mOptimizationThread := Joinable worker\<rparr>,
                     [SpawnThread worker])))"

text \<open>\<open>stop\<close>: \<open>join\<close> on a thread that is not joinable throws.\<close>

definition stop :: "'a SSID \<Rightarrow> error + 'a SSID \<times> 'a event list" where
  "stop s =
     (if \<not> mRunning s then Inr (s, [])
      else (case mOptimizationThread s of
              NotAThread \<Rightarrow> Inl ThreadNotJoinable
            | Joinable worker \<Rightarrow>
                Inr (s\<lparr>mRunning := False, mOptimizationThread := NotAThread\<rparr>,
                     [JoinThread worker])))"

text \<open>
  What the collaborators return during one inference cycle: the two readings of the
  clock, \<open>ceil(timeStep * 1000.0)\<close> as computed in \<open>double\<close>, the address of a newly
  allocated problem, \<open>VectorLog::getValues\<close>, the solution of the optimizer, and the
  positions and velocities of the rollout cache.
\<close>

record 'a InferenceEnv =
  clockAtStart :: long
  clockAtEnd :: long
  ceilMillis :: "'a \<Rightarrow> int"
  freshProblem :: nat
  getValues :: "'a VectorLog \<Rightarrow> long \<Rightarrow> cint \<Rightarrow> cint \<Rightarrow> 'a matrix"
  optimize :: "nat \<Rightarrow> nat"
  getPosesConst :: "'a matrix"
  getVelsConst :: "'a matrix"

text \<open>\<open>static_cast<int>\<close> of a \<open>double\<close> with an integral value: undefined out of range.\<close>

definition toInt :: "int \<Rightarrow> error + cint" where
  "toInt z =
     (if - (2 ^ 31) \<le> z \<and> z < 2 ^ 31 then Inr (word_of_int z) else Inl ConversionUndefined)"

text \<open>
  \<open>ceil(static_cast<double>(p) / m)\<close> for 32-bit integers: the quotient in \<open>double\<close> has
  the ceiling of the exact quotient; for \<open>m = 0\<close> it is infinite or not a number, and its
  conversion to \<open>int\<close> is undefined.
\<close>

definition ceilDiv :: "cint \<Rightarrow> cint \<Rightarrow> error + cint" where
  "ceilDiv p m =
     (if m = 0 then Inl ConversionUndefined
      else toInt (- ((- sint p) div sint m)))"

text \<open>\<open>M.col(k)\<close> with an \<open>int\<close> index.\<close>

definition colInt :: "'a matrix \<Rightarrow> int \<Rightarrow> error + 'a list" where
  "colInt M k = (if 0 \<le> k then col M (nat k) else Inl IndexOutOfRange)"

definition pinForceStep :: "'a matrix \<Rightarrow> nat \<Rightarrow> 'a event list \<Rightarrow> error + 'a event list" where
  "pinForceStep forceHistory i evs =
     andThen (col forceHistory i) (\<lambda>c. Inr (evs @ [PinForce i c]))"

definition runInference ::
  "'a InferenceEnv \<Rightarrow> long \<Rightarrow> 'a SSID \<Rightarrow> error + 'a SSID \<times> 'a event list" where
  "runInference env startTime s =
     (let startComputeWallTime = clockAtStart env
      in andThen (toInt (ceilMillis env (getTimeStep (mWorld s)))) (\<lambda>millisPerStep.
         andThen (ceilDiv (mPlanningHistoryMillis s) millisPerStep) (\<lambda>steps.
         let created =
               (case mProblem s of
                  None \<Rightarrow> [NewMultiShot (freshProblem env) (sint steps) 10 True,
                           SetParallelOperationsEnabled True]
                | Some p \<Rightarrow> []);
             problem = (case mProblem s of None \<Rightarrow> freshProblem env | Some p \<Rightarrow> p);
             forceHistory =
               getValues env (mControlLog s)
                 (startTime - scast (mPlanningHistoryMillis s)) steps millisPerStep
         in andThen (forEach [0..<nat (sint steps)] (pinForceStep forceHistory) []) (\<lambda>pinned.
            let sensorHistory =
                  getValues env (mSensorLog s)
                    (startTime - scast (mPlanningHistoryMillis s)) steps millisPerStep;
                startPos = mInitialPosEstimator s sensorHistory startTime;
                solution = optimize env problem;
                computeDurationWallTime = clockAtEnd env - startComputeWallTime
            in andThen (colInt (getPosesConst env) (sint steps - 1)) (\<lambda>pos.
               andThen (colInt (getVelsConst env) (sint steps - 1)) (\<lambda>vel.
               let mass = getMasses (mWorld s)
               in Inr (s\<lparr>mProblem := Some problem, mSolution := Some solution\<rparr>,
                       created @ pinned
                       @ [SetMetadata ''forces'' forceHistory,
                          SetMetadata ''sensors'' sensorHistory,
                          SetStartPos startPos,
                          Optimize problem,
                          GetRolloutCache]
                       @ map (\<lambda>listener. InferListener listener startTime pos vel mass
                                           computeDurationWallTime)
                             (mInferListeners s))))))))"

text \<open>
  One turn of the loop of \<open>optimizationThreadLoop\<close>, entered with the running flag set:
  \<open>now\<close> is the reading of the clock and \<open>availableHistoryBefore\<close> the query on the
  control log. The \<open>int\<close> is converted to \<open>long\<close> for the comparison. (The loop
  first blocks two signals for its thread; signals are not part of the model.)
\<close>

definition optimizationThreadIteration ::
  "('a VectorLog \<Rightarrow> long \<Rightarrow> long) \<Rightarrow> 'a InferenceEnv \<Rightarrow> long \<Rightarrow> 'a SSID
     \<Rightarrow> error + 'a SSID \<times> 'a event list" where
  "optimizationThreadIteration availableHistoryBefore env now s =
     (let startTime = now
      in if sint (availableHistoryBefore (mControlLog s) startTime)
              > sint (mPlanningHistoryMillis s)
         then andThen (runInference env startTime s) (\<lambda>r.
              Inr (fst r, Print ''Running inference'' # snd r))
         else Inr (s, []))"

text \<open>
  The loop itself. Between two turns the other threads may have changed the object
  (\<open>stop\<close> clears the running flag, the register functions extend the logs); a turn of
  the schedule gives that change, the clock and the collaborators' answers. The loop
  returns when it reads a cleared flag; when the schedule ends before that, it is still
  running (\<open>None\<close>).
\<close>

record 'a turn =
  others :: "'a SSID \<Rightarrow> 'a SSID"
  clock :: long
  answers :: "'a InferenceEnv"

fun optimizationThreadLoop ::
  "('a VectorLog \<Rightarrow> long \<Rightarrow> long) \<Rightarrow> 'a turn list \<Rightarrow> 'a SSID \<Rightarrow> 'a event list
     \<Rightarrow> (error + 'a SSID \<times> 'a event list) option" where
  "optimizationThreadLoop availableHistoryBefore [] s trace = None"
| "optimizationThreadLoop availableHistoryBefore (t # ts) s trace =
     (let s1 = others t s
      in if mRunning s1
         then (case optimizationThreadIteration availableHistoryBefore (answers t) (clock t) s1 of
                 Inl e \<Rightarrow> Some (Inl e)
               | Inr r \<Rightarrow> optimizationThreadLoop availableHistoryBefore ts (fst r)
                            (trace @ snd r))
         else Some (Inr (s1, trace)))"

text \<open>The calls a client (or the worker) makes on the object, and a sequence of them.\<close>

datatype 'a call =
    SetLoss nat
  | SetOptimizer "'a Optimizer"
  | SetProblem "nat option"
  | SetInitialPosEstimator "'a matrix \<Rightarrow> long \<Rightarrow> 'a list"
  | RegisterSensors long "'a list"
  | RegisterControls long "'a list"
  | RegisterInferListener nat
  | Start nat
  | Stop
  | RunInference "'a InferenceEnv" long

fun applyCall :: "'a call \<Rightarrow> 'a SSID \<Rightarrow> error + 'a SSID" where
  "applyCall (SetLoss l) s = Inr (setLoss l s)"
| "applyCall (SetOptimizer opt) s = Inr (setOptimizer opt s)"
| "applyCall (SetProblem p) s = Inr (setProblem p s)"
| "applyCall (SetInitialPosEstimator f) s = Inr (setInitialPosEstimator f s)"
| "applyCall (RegisterSensors now v) s = Inr (registerSensors now v s)"
| "applyCall (RegisterControls now v) s = Inr (registerControls now v s)"
| "applyCall (RegisterInferListener l) s = Inr (registerInferListener l s)"
| "applyCall (Start worker) s = andThen (start worker s) (\<lambda>r. Inr (fst r))"
| "applyCall Stop s = andThen (stop s) (\<lambda>r. Inr (fst r))"
| "applyCall (RunInference env startTime) s =
     andThen (runInference env startTime s) (\<lambda>r. Inr (fst r))"

fun isSetInitialPosEstimator :: "'a call \<Rightarrow> bool" where
  "isSetInitialPosEstimator (SetInitialPosEstimator f) = True"
| "isSetInitialPosEstimator c = False"

fun startPositions :: "'a event list \<Rightarrow> 'a list list" where
  "startPositions [] = []"
| "startPositions (SetStartPos v # evs) = v # startPositions evs"
| "startPositions (e # evs) = startPositions evs"

section \<open>Notions used in the statements\<close>

text \<open>The running flag is set exactly when the object holds a worker thread.\<close>

definition workerConsistent :: "'a SSID \<Rightarrow> bool" where
  "workerConsistent s \<longleftrightarrow> (mRunning s \<longleftrightarrow> mOptimizationThread s \<noteq> NotAThread)"

text \<open>
  The world offset of the \<open>i\<close>-th skeleton: the sum of the numbers of degrees of freedom
  of the skeletons before it, which is the value of the constructor's counter when it
  reaches that skeleton.
\<close>

definition worldOffset :: "'a Skeleton list \<Rightarrow> nat \<Rightarrow> nat" where
  "worldOffset skels i = sum_list (map numDofs (take i skels))"

text \<open>
  The two mass matrices of a skeleton are square, of the size of its degrees of freedom.
\<close>

definition massShapes :: "'a Skeleton \<Rightarrow> bool" where
  "massShapes skel \<longleftrightarrow>
     wf_matrix (massMatrix skel) \<and> rows (massMatrix skel) = numDofs skel
     \<and> cols (massMatrix skel) = numDofs skel
     \<and> wf_matrix (invMassMatrix skel) \<and> rows (invMassMatrix skel) = numDofs skel
     \<and> cols (invMassMatrix skel) = numDofs skel"

text \<open>
  The coefficient at \<open>(a, b)\<close> of the matrix that has the square blocks \<open>Bs\<close> along its
  diagonal from position \<open>c\<close> on, and the coefficients \<open>f\<close> elsewhere.
\<close>

fun blockDiagonal :: "nat \<Rightarrow> 'a matrix list \<Rightarrow> (nat \<Rightarrow> nat \<Rightarrow> 'a) \<Rightarrow> nat \<Rightarrow> nat \<Rightarrow> 'a" where
  "blockDiagonal c [] f a b = f a b"
| "blockDiagonal c (B # Bs) f a b =
     (if c \<le> a \<and> a < c + rows B \<and> c \<le> b \<and> b < c + rows B
      then coeff B (a - c) (b - c)
      else blockDiagonal (c + rows B) Bs f a b)"

section \<open>Example worlds\<close>

text \<open>
  Two skeletons, \<open>a\<close> with two degrees of freedom and \<open>b\<close> with one. In the first world
  each is in a constraint group of its own, with two and with one clamping contact; in
  the second world there is no contact.
\<close>

definition skelA :: "real Skeleton" where
  "skelA = \<lparr>name = ''a'', numDofs = 2,
             massMatrix = \<lparr>rows = 2, cols = 2, coeffs = [[2, 0], [0, 4]]\<rparr>,
             invMassMatrix = \<lparr>rows = 2, cols = 2, coeffs = [[1 / 2, 0], [0, 1 / 4]]\<rparr>\<rparr>"

definition skelB :: "real Skeleton" where
  "skelB = \<lparr>name = ''b'', numDofs = 1,
             massMatrix = \<lparr>rows = 1, cols = 1, coeffs = [[5]]\<rparr>,
             invMassMatrix = \<lparr>rows = 1, cols = 1, coeffs = [[1 / 5]]\<rparr>\<rparr>"

definition groupA :: "real ConstrainedGroupGradientMatrices" where
  "groupA = \<lparr>skeletons = [skelA], numConstraintDim = 2,
     clampingConstraintMatrix = \<lparr>rows = 2, cols = 2, coeffs = [[1, 0], [0, 1]]\<rparr>,
     massedClampingConstraintMatrix = \<lparr>rows = 2, cols = 2, coeffs = [[1 / 2, 0], [0, 1 / 4]]\<rparr>,
     upperBoundConstraintMatrix = \<lparr>rows = 2, cols = 0, coeffs = [[], []]\<rparr>,
     massedUpperBoundConstraintMatrix = \<lparr>rows = 2, cols = 0, coeffs = [[], []]\<rparr>,
     upperBoundMappingMatrix = \<lparr>rows = 0, cols = 2, coeffs = []\<rparr>,
     bouncingConstraintMatrix = \<lparr>rows = 2, cols = 0, coeffs = [[], []]\<rparr>,
     bounceDiagonals = [1, 1], restitutionDiagonals = [],
     contactConstraintImpluses = [3, 4], contactConstraintMappings = [- 1, - 1]\<rparr>"

definition groupB :: "real ConstrainedGroupGradientMatrices" where
  "groupB = \<lparr>skeletons = [skelB], numConstraintDim = 1,
     clampingConstraintMatrix = \<lparr>rows = 1, cols = 1, coeffs = [[1]]\<rparr>,
     massedClampingConstraintMatrix = \<lparr>rows = 1, cols = 1, coeffs = [[1 / 5]]\<rparr>,
     upperBoundConstraintMatrix = \<lparr>rows = 1, cols = 0, coeffs = [[]]\<rparr>,
     massedUpperBoundConstraintMatrix = \<lparr>rows = 1, cols = 0, coeffs = [[]]\<rparr>,
     upperBoundMappingMatrix = \<lparr>rows = 0, cols = 1, coeffs = []\<rparr>,
     bouncingConstraintMatrix = \<lparr>rows = 1, cols = 0, coeffs = [[]]\<rparr>,
     bounceDiagonals = [1], restitutionDiagonals = [],
     contactConstraintImpluses = [6], contactConstraintMappings = [- 1]\<rparr>"

definition twoGroupWorld :: "real World" where
  "twoGroupWorld = \<lparr>timeStep = 1 / 1000,
     worldSkeletons = [(skelA, Some (1, groupA)), (skelB, Some (2, groupB))]\<rparr>"

definition twoGroupSnapshot :: "real BackpropSnapshot" where
  "twoGroupSnapshot = newBackpropSnapshot twoGroupWorld [0, 0, 0] [0, 0, 0] [0, 0, 0]"

text \<open>The same two groups with the skeletons in the other order.\<close>

definition swappedWorld :: "real World" where
  "swappedWorld = \<lparr>timeStep = 1 / 1000,
     worldSkeletons = [(skelB, Some (2, groupB)), (skelA, Some (1, groupA))]\<rparr>"

definition swappedSnapshot :: "real BackpropSnapshot" where
  "swappedSnapshot = newBackpropSnapshot swappedWorld [0, 0, 0] [0, 0, 0] [0, 0, 0]"

definition freeWorld :: "real World" where
  "freeWorld = \<lparr>timeStep = 1 / 1000, worldSkeletons = [(skelA, None), (skelB, None)]\<rparr>"

definition freeSnapshot :: "real BackpropSnapshot" where
  "freeSnapshot = newBackpropSnapshot freeWorld [0, 0, 0] [0, 0, 0] [0, 0, 0]"

text \<open>Stand-ins for the decomposition's results and for the content of fresh storage.\<close>

definition zeroPinv :: "real matrix \<Rightarrow> nat \<Rightarrow> nat \<Rightarrow> real" where
  "zeroPinv F i j = 0"

definition zeroSolve :: "real matrix \<Rightarrow> real list \<Rightarrow> nat \<Rightarrow> real" where
  "zeroSolve A b i = 0"

definition zeroJunk :: "nat \<Rightarrow> real" where
  "zeroJunk i = 0"

text \<open>
  An estimation loop over a world with two degrees of freedom and a time step of half a
  second, planning over one second of history; logs that report exactly one second of
  history, and one millisecond more.
\<close>

definition exampleSimWorld :: "real SimWorld" where
  "exampleSimWorld = \<lparr>getNumDofs = 2, getTimeStep = 1 / 2, getMasses = [3]\<rparr>"

definition idleSSID :: "real SSID" where
  "idleSSID = newSSID exampleSimWorld 0 1000 3"

definition runningSSID :: "real SSID" where
  "runningSSID = idleSSID\<lparr>mRunning := True, mOptimizationThread := Joinable 1\<rparr>"

definition exactHistory :: "real VectorLog \<Rightarrow> long \<Rightarrow> long" where
  "exactHistory l t = 1000"

definition longerHistory :: "real VectorLog \<Rightarrow> long \<Rightarrow> long" where
  "longerHistory l t = 1001"

definition exampleValues :: "real VectorLog \<Rightarrow> long \<Rightarrow> cint \<Rightarrow> cint \<Rightarrow> real matrix" where
  "exampleValues l t steps millis = Zero (nat (logDim l)) (nat (sint steps))"

definition exampleCeilMillis :: "real \<Rightarrow> int" where
  "exampleCeilMillis x = \<lceil>x * 1000\<rceil>"

definition exampleOptimize :: "nat \<Rightarrow> nat" where
  "exampleOptimize p = 77"

definition exampleEnv :: "real InferenceEnv" where
  "exampleEnv = \<lparr>clockAtStart = 5000, clockAtEnd = 5004, ceilMillis = exampleCeilMillis,
      freshProblem = 42, getValues = exampleValues, optimize = exampleOptimize,
      getPosesConst = Zero 2 2, getVelsConst = Zero 2 2\<rparr>"

text \<open>
  Turns of the worker loop: one at which no other thread has touched the object, one at
  which \<open>stop\<close> has cleared the running flag. The trace of one inference cycle in the
  example.
\<close>

definition noInterference :: "real SSID \<Rightarrow> real SSID" where
  "noInterference s = s"

definition stopRequested :: "real SSID \<Rightarrow> real SSID" where
  "stopRequested s = s\<lparr>mRunning := False\<rparr>"

definition pollTurn :: "real turn" where
  "pollTurn = \<lparr>others = noInterference, clock = 5000, answers = exampleEnv\<rparr>"

definition stopTurn :: "real turn" where
  "stopTurn = \<lparr>others = stopRequested, clock = 5001, answers = exampleEnv\<rparr>"

definition inferenceTrace :: "real event list" where
  "inferenceTrace =
     [Print ''Running inference'', NewMultiShot 42 2 10 True,
      SetParallelOperationsEnabled True, PinForce 0 [0, 0], PinForce 1 [0, 0],
      SetMetadata ''forces'' \<lparr>rows = 2, cols = 2, coeffs = [[0, 0], [0, 0]]\<rparr>,
      SetMetadata ''sensors'' \<lparr>rows = 3, cols = 2, coeffs = [[0, 0], [0, 0], [0, 0]]\<rparr>,
      SetStartPos [0, 0], Optimize 42, GetRolloutCache]"

definition exampleCalls :: "real call list" where
  "exampleCalls = [RegisterControls 4000 [1, 2], RegisterSensors 4000 [1, 2, 3],
                   RegisterInferListener 9, Start 1]"

section \<open>Basic facts\<close>

lemma andThen_Inr [simp]: "andThen (Inr x) f = f x"
  by (simp add: andThen_def)

lemma andThen_Inl [simp]: "andThen (Inl e) f = Inl e"
  by (simp add: andThen_def)

lemma andThen_eq_Inr: "andThen m f = Inr y \<longleftrightarrow> (\<exists>x. m = Inr x \<and> f x = Inr y)"
  by (cases m) simp_all

lemma andThen_eq_Inl: "andThen m f = Inl e \<longleftrightarrow> m = Inl e \<or> (\<exists>x. m = Inr x \<and> f x = Inl e)"
  by (cases m) simp_all

text \<open>A property that every turn of a loop keeps holds when the loop returns.\<close>

lemma forEach_invariant:
  assumes "forEach xs body st = Inr st'" and "P st"
    and "\<And>x a b. x \<in> set xs \<Longrightarrow> P a \<Longrightarrow> body x a = Inr b \<Longrightarrow> P b"
  shows "P st'"
  using assms
proof (induction xs arbitrary: st)
  case Nil
  then show ?case by simp
next
  case (Cons x xs)
  from Cons.prems(1) obtain mid where m: "body x st = Inr mid" "forEach xs body mid = Inr st'"
    by (auto simp: andThen_eq_Inr)
  have mid: "P mid" using Cons.prems(3)[of x st mid] Cons.prems(2) m(1) by simp
  show ?case
  proof (rule Cons.IH[OF m(2) mid])
    fix y a b assume "y \<in> set xs" "P a" "body y a = Inr b"
    then show "P b" using Cons.prems(3)[of y a b] by simp
  qed
qed

text \<open>A failure that no turn produces is not the failure of the loop.\<close>

lemma forEach_never:
  assumes "\<And>x st. x \<in> set xs \<Longrightarrow> body x st \<noteq> Inl e"
  shows "forEach xs body st \<noteq> Inl e"
  using assms
proof (induction xs arbitrary: st)
  case Nil
  then show ?case by simp
next
  case (Cons x xs)
  show ?case
  proof (cases "body x st")
    case (Inl e')
    with Cons.prems[of x st] show ?thesis by auto
  next
    case (Inr st')
    with Cons show ?thesis by auto
  qed
qed

subsection \<open>Matrices\<close>

lemma rows_mk [simp]: "rows (mk_matrix r c f) = r"
  by (simp add: mk_matrix_def)

lemma cols_mk [simp]: "cols (mk_matrix r c f) = c"
  by (simp add: mk_matrix_def)

lemma coeff_mk [simp]: "i < r \<Longrightarrow> j < c \<Longrightarrow> coeff (mk_matrix r c f) i j = f i j"
  by (simp add: mk_matrix_def coeff_def)

lemma wf_mk [simp]: "wf_matrix (mk_matrix r c f)"
  by (simp add: wf_matrix_def mk_matrix_def list_all_iff)

lemma mk_matrix_cong:
  "(\<And>i j. i < r \<Longrightarrow> j < c \<Longrightarrow> f i j = g i j) \<Longrightarrow> mk_matrix r c f = mk_matrix r c g"
  by (simp add: mk_matrix_def)

lemma mk_matrix_coeff:
  assumes "wf_matrix M"
  shows "mk_matrix (rows M) (cols M) (coeff M) = M"
proof -
  have "map (\<lambda>i. map (\<lambda>j. coeffs M ! i ! j) [0..<cols M]) [0..<rows M] = coeffs M"
    using assms by (auto simp: wf_matrix_def list_all_iff intro!: nth_equalityI)
  then show ?thesis by (simp add: mk_matrix_def coeff_def[abs_def])
qed

lemma rows_Zero [simp]: "rows (Zero r c) = r"
  by (simp add: Zero_def)

lemma cols_Zero [simp]: "cols (Zero r c) = c"
  by (simp add: Zero_def)

lemma coeff_Zero [simp]: "i < r \<Longrightarrow> j < c \<Longrightarrow> coeff (Zero r c) i j = 0"
  by (simp add: Zero_def)

lemma rows_Identity [simp]: "rows (Identity r c) = r"
  by (simp add: Identity_def)

lemma cols_Identity [simp]: "cols (Identity r c) = c"
  by (simp add: Identity_def)

lemma rows_scale [simp]: "rows (scale a M) = rows M"
  by (simp add: scale_def)

lemma cols_scale [simp]: "cols (scale a M) = cols M"
  by (simp add: scale_def)

lemma wf_scale [simp]: "wf_matrix (scale a M)"
  by (simp add: scale_def)

lemma assign_block_dims:
  "assign_block M r0 c0 h w B = Inr M' \<Longrightarrow> rows M' = rows M \<and> cols M' = cols M"
  by (auto simp: assign_block_def split: if_splits)

lemma sum_list_zeros:
  "(\<And>k. k < n \<Longrightarrow> f k = 0) \<Longrightarrow> sum_list (map f [0..<n]) = (0::'a::monoid_add)"
  by (induction n) simp_all

lemma sum_list_delta:
  fixes f :: "nat \<Rightarrow> 'a::semiring_1"
  assumes "j < n"
  shows "sum_list (map (\<lambda>k. f k * (if k = j then 1 else 0)) [0..<n]) = f j"
proof -
  have "sum_list (map (\<lambda>k. f k * (if k = j then 1 else 0)) [0..<n])
        = (\<Sum>k\<in>{0..<n}. if k = j then f k else 0)"
    by (simp add: interv_sum_list_conv_sum_set_nat if_distrib cong: if_cong)
  also have "\<dots> = f j" using assms by simp
  finally show ?thesis .
qed

text \<open>A product with the identity, with an empty inner dimension, with a zero matrix.\<close>

lemma mat_mul_Identity:
  fixes A :: "('a::semiring_1) matrix"
  assumes "wf_matrix A" "cols A = n"
  shows "mat_mul A (Identity n n) = Inr A"
proof -
  have "mk_matrix (rows A) n
          (\<lambda>i j. sum_list (map (\<lambda>k. coeff A i k * coeff (Identity n n :: 'a matrix) k j) [0..<n]))
        = mk_matrix (rows A) n (coeff A)"
  proof (rule mk_matrix_cong)
    fix i j assume ij: "i < rows A" "j < n"
    have "sum_list (map (\<lambda>k. coeff A i k * coeff (Identity n n :: 'a matrix) k j) [0..<n])
        = sum_list (map (\<lambda>k. coeff A i k * (if k = j then 1 else 0)) [0..<n])"
      by (rule arg_cong[where f = sum_list], rule map_cong) (use ij in \<open>auto simp: Identity_def\<close>)
    also have "\<dots> = coeff A i j" by (rule sum_list_delta[OF ij(2)])
    finally show "sum_list (map (\<lambda>k. coeff A i k * coeff (Identity n n :: 'a matrix) k j) [0..<n])
        = coeff A i j" .
  qed
  then show ?thesis using assms mk_matrix_coeff[OF assms(1)] by (simp add: mat_mul_def Identity_def)
qed

lemma mat_mul_empty_inner:
  fixes A B :: "('a::semiring_0) matrix"
  assumes "cols A = 0" "rows B = 0"
  shows "mat_mul A B = Inr (Zero (rows A) (cols B))"
  using assms by (simp add: mat_mul_def Zero_def)

lemma Zero_mat_mul:
  fixes B :: "('a::semiring_0) matrix"
  assumes "rows B = n"
  shows "mat_mul (Zero m n) B = Inr (Zero m (cols B))"
proof -
  have "mk_matrix m (cols B)
          (\<lambda>i j. sum_list (map (\<lambda>k. coeff (Zero m n :: 'a matrix) i k * coeff B k j) [0..<n]))
        = mk_matrix m (cols B) (\<lambda>i j. 0)"
    by (rule mk_matrix_cong) (simp add: sum_list_zeros)
  then show ?thesis using assms by (simp add: mat_mul_def Zero_def)
qed

lemma Identity_sub_Zero:
  "mat_sub (Identity n n) (Zero n n) = Inr (Identity n n :: ('a::ring_1) matrix)"
proof -
  have "mk_matrix n n (\<lambda>i j. coeff (Identity n n :: 'a matrix) i j - coeff (Zero n n :: 'a matrix) i j)
        = (Identity n n :: 'a matrix)"
    unfolding Identity_def[of n n] by (rule mk_matrix_cong) (simp add: Identity_def)
  then show ?thesis by (simp add: mat_sub_def Identity_def Zero_def)
qed

subsection \<open>The constructor\<close>

lemma collectSkeleton_fields:
  "mSkeletons (collectSkeleton e s) = mSkeletons s @ [fst e]
   \<and> mNumDOFs (collectSkeleton e s) = mNumDOFs s + numDofs (fst e)
   \<and> mTimeStep (collectSkeleton e s) = mTimeStep s"
  by (simp add: collectSkeleton_def Let_def split: option.splits)

lemma fold_collectSkeleton_fields:
  "mSkeletons (fold collectSkeleton es s) = mSkeletons s @ map fst es
   \<and> mNumDOFs (fold collectSkeleton es s) = mNumDOFs s + sum_list (map (\<lambda>e. numDofs (fst e)) es)
   \<and> mTimeStep (fold collectSkeleton es s) = mTimeStep s"
  by (induction es arbitrary: s) (simp_all add: collectSkeleton_fields)

lemma newBackpropSnapshot_fields:
  "mSkeletons (newBackpropSnapshot w p v t) = map fst (worldSkeletons w)
   \<and> mNumDOFs (newBackpropSnapshot w p v t) = sum_list (map (\<lambda>e. numDofs (fst e)) (worldSkeletons w))
   \<and> mTimeStep (newBackpropSnapshot w p v t) = timeStep w"
  by (simp add: newBackpropSnapshot_def fold_collectSkeleton_fields emptySnapshot_def)

lemma collectSkeleton_nogroup:
  "snd e = None \<Longrightarrow>
     mGradientMatrices (collectSkeleton e s) = mGradientMatrices s
   \<and> mNumClamping (collectSkeleton e s) = mNumClamping s
   \<and> mNumUpperBound (collectSkeleton e s) = mNumUpperBound s
   \<and> mNumBouncing (collectSkeleton e s) = mNumBouncing s"
  by (simp add: collectSkeleton_def Let_def)

lemma fold_collectSkeleton_nogroup:
  "list_all (\<lambda>e. snd e = None) es \<Longrightarrow>
     mGradientMatrices (fold collectSkeleton es s) = mGradientMatrices s
   \<and> mNumClamping (fold collectSkeleton es s) = mNumClamping s
   \<and> mNumUpperBound (fold collectSkeleton es s) = mNumUpperBound s
   \<and> mNumBouncing (fold collectSkeleton es s) = mNumBouncing s"
  by (induction es arbitrary: s) (simp_all add: collectSkeleton_nogroup)

lemma newBackpropSnapshot_nogroup:
  assumes "list_all (\<lambda>e. snd e = None) (worldSkeletons w)"
  shows "mGradientMatrices (newBackpropSnapshot w p v t) = []"
    "mNumClamping (newBackpropSnapshot w p v t) = 0"
    "mNumUpperBound (newBackpropSnapshot w p v t) = 0"
    "mNumBouncing (newBackpropSnapshot w p v t) = 0"
  using fold_collectSkeleton_nogroup[OF assms, of "emptySnapshot w p v t"]
  by (simp_all add: newBackpropSnapshot_def emptySnapshot_def)

text \<open>
  With distinct skeleton names, the offset map gives every skeleton the value of the
  counter at its turn.
\<close>

lemma collectSkeleton_offset:
  "mSkeletonOffset (collectSkeleton e s) k
   = (if mSkeletonOffset s k = None \<and> k = name (fst e) then Some (mNumDOFs s)
      else mSkeletonOffset s k)"
  by (auto simp: collectSkeleton_def Let_def split: option.splits)

lemma fold_collectSkeleton_keeps:
  "mSkeletonOffset s k = Some v \<Longrightarrow> mSkeletonOffset (fold collectSkeleton es s) k = Some v"
  by (induction es arbitrary: s) (simp_all add: collectSkeleton_offset)

lemma fold_collectSkeleton_offset:
  assumes "distinct (map (\<lambda>e. name (fst e)) es)"
    and "list_all (\<lambda>e. mSkeletonOffset s (name (fst e)) = None) es"
    and "i < length es"
  shows "mSkeletonOffset (fold collectSkeleton es s) (name (fst (es ! i)))
         = Some (mNumDOFs s + worldOffset (map fst es) i)"
  using assms
proof (induction es arbitrary: s i)
  case Nil
  then show ?case by simp
next
  case (Cons e es)
  let ?s1 = "collectSkeleton e s"
  show ?case
  proof (cases i)
    case 0
    have "mSkeletonOffset ?s1 (name (fst e)) = Some (mNumDOFs s)"
      using Cons.prems(2) by (simp add: collectSkeleton_offset)
    then show ?thesis using 0 by (simp add: fold_collectSkeleton_keeps worldOffset_def)
  next
    case (Suc k)
    have "mSkeletonOffset ?s1 (name (fst e')) = None" if "e' \<in> set es" for e'
    proof -
      have inside: "name (fst e') \<in> (\<lambda>e. name (fst e)) ` set es" using that by (rule imageI)
      have outside: "name (fst e) \<notin> (\<lambda>e. name (fst e)) ` set es"
        using Cons.prems(1) by simp
      have "name (fst e') \<noteq> name (fst e)" using inside outside by metis
      moreover have "mSkeletonOffset s (name (fst e')) = None"
        using Cons.prems(2) that by (simp add: list_all_iff)
      ultimately show ?thesis by (simp add: collectSkeleton_offset)
    qed
    then have "list_all (\<lambda>e'. mSkeletonOffset ?s1 (name (fst e')) = None) es"
      by (simp add: list_all_iff)
    then have "mSkeletonOffset (fold collectSkeleton es ?s1) (name (fst (es ! k)))
         = Some (mNumDOFs ?s1 + worldOffset (map fst es) k)"
      using Cons.prems Suc by (intro Cons.IH) simp_all
    then show ?thesis using Suc by (simp add: collectSkeleton_fields worldOffset_def)
  qed
qed

lemma newBackpropSnapshot_offset:
  assumes "distinct (map (\<lambda>e. name (fst e)) (worldSkeletons w))"
    and "i < length (worldSkeletons w)"
  shows "mSkeletonOffset (newBackpropSnapshot w p v t) (name (fst (worldSkeletons w ! i)))
         = Some (worldOffset (map fst (worldSkeletons w)) i)"
  using fold_collectSkeleton_offset[OF assms(1) _ assms(2), of "emptySnapshot w p v t"]
  by (simp add: newBackpropSnapshot_def emptySnapshot_def list_all_iff)

subsection \<open>Shapes of the assembled matrices\<close>

lemma shuffleSkeleton_dims:
  "shuffleSkeleton offs G cc skel st = Inr st'
   \<Longrightarrow> rows (fst st') = rows (fst st) \<and> cols (fst st') = cols (fst st)"
  by (auto simp: shuffleSkeleton_def andThen_eq_Inr dest: assign_block_dims)

lemma shuffleGroup_dims:
  assumes "shuffleGroup offs k g st = Inr st'"
  shows "rows (fst st') = rows (fst st) \<and> cols (fst st') = cols (fst st)"
proof -
  from assms obtain inner where
    i: "forEach (skeletons (snd g))
          (shuffleSkeleton offs (groupMatrixOf k (snd g)) (snd st)) (fst st, 0) = Inr inner"
    and s: "fst st' = fst inner"
    by (auto simp: shuffleGroup_def Let_def andThen_eq_Inr)
  have "rows (fst inner) = rows (fst st) \<and> cols (fst inner) = cols (fst st)"
    by (rule forEach_invariant[OF i]) (auto dest: shuffleSkeleton_dims)
  then show ?thesis by (simp add: s)
qed

lemma assembleMatrix_dims:
  assumes "assembleMatrix s k = Inr M"
  shows "rows M = mNumDOFs s
       \<and> cols M = (if k = CLAMPING \<or> k = MASSED_CLAMPING then mNumClamping s
                   else if k = UPPER_BOUND \<or> k = MASSED_UPPER_BOUND then mNumUpperBound s
                   else mNumBouncing s)"
proof -
  define n where "n = (if k = CLAMPING \<or> k = MASSED_CLAMPING then mNumClamping s
                   else if k = UPPER_BOUND \<or> k = MASSED_UPPER_BOUND then mNumUpperBound s
                   else if k = BOUNCING then mNumBouncing s else 0)"
  from assms obtain st where
    i: "forEach (mGradientMatrices s) (shuffleGroup (mSkeletonOffset s) k)
          (Zero (mNumDOFs s) n, 0) = Inr st" and m: "M = fst st"
    by (auto simp: assembleMatrix_def Let_def andThen_eq_Inr n_def)
  have "rows (fst st) = mNumDOFs s \<and> cols (fst st) = n"
    by (rule forEach_invariant[OF i]) (auto dest: shuffleGroup_dims)
  then show ?thesis unfolding m n_def by (cases k) auto
qed

lemma placeSkeletonBlock_shape:
  "placeSkeletonBlock pick sk st = Inr st'
   \<Longrightarrow> rows (fst st') = rows (fst st) \<and> cols (fst st') = cols (fst st) \<and> wf_matrix (fst st')"
  by (auto simp: placeSkeletonBlock_def Let_def assign_block_def andThen_eq_Inr split: if_splits)

lemma getInvMassMatrix_shape:
  assumes "getInvMassMatrix s = Inr Minv"
  shows "rows Minv = mNumDOFs s \<and> cols Minv = mNumDOFs s \<and> wf_matrix Minv"
proof -
  from assms obtain st where
    l: "forEach (mSkeletons s) (placeSkeletonBlock invMassMatrix)
          (Zero (mNumDOFs s) (mNumDOFs s), 0) = Inr st" and m: "Minv = fst st"
    by (auto simp: getInvMassMatrix_def andThen_eq_Inr)
  have "rows (fst st) = mNumDOFs s \<and> cols (fst st) = mNumDOFs s \<and> wf_matrix (fst st)"
    by (rule forEach_invariant[OF l]) (auto simp: Zero_def dest: placeSkeletonBlock_shape)
  then show ?thesis by (simp add: m)
qed

subsection \<open>The example worlds, evaluated\<close>

lemmas snapshot_defs = newBackpropSnapshot_def emptySnapshot_def collectSkeleton_def
  twoGroupWorld_def twoGroupSnapshot_def swappedWorld_def swappedSnapshot_def
  freeWorld_def freeSnapshot_def skelA_def skelB_def groupA_def groupB_def

lemmas vector_eval_defs = assembleVector_VectorXd_def assembleVector_def
  sizeLoopBody_def collectLoopBody_def elemAt_def assign_segment_def UninitializedVec_def
  getVectorToAssemble_VectorXd_def upt_rec numeral_3_eq_3

lemmas matrix_eval_defs = assembleMatrix_def shuffleGroup_def shuffleSkeleton_def
  groupMatrixOf_def findOffset_def block_def assign_block_def Zero_def mk_matrix_def coeff_def
  upt_rec Let_def

lemma twoGroup_fields:
  "mGradientMatrices twoGroupSnapshot = [(1, groupA), (2, groupB)]"
  "mNumDOFs twoGroupSnapshot = 3" "mNumClamping twoGroupSnapshot = 3"
  "mNumUpperBound twoGroupSnapshot = 0" "mNumBouncing twoGroupSnapshot = 0"
  "mSkeletonOffset twoGroupSnapshot ''a'' = Some 0"
  "mSkeletonOffset twoGroupSnapshot ''b'' = Some 2"
  "mTimeStep twoGroupSnapshot = 1 / 1000"
  by (simp_all add: snapshot_defs Let_def)

lemma swapped_fields:
  "mGradientMatrices swappedSnapshot = [(2, groupB), (1, groupA)]"
  by (simp add: snapshot_defs Let_def)

lemma free_fields:
  "mSkeletons freeSnapshot = [skelA, skelB]" "mNumDOFs freeSnapshot = 3"
  by (simp_all add: snapshot_defs Let_def)

lemma twoGroup_clamping:
  "getClampingConstraintMatrix twoGroupSnapshot
   = Inr \<lparr>rows = 3, cols = 3, coeffs = [[1, 0, 0], [0, 1, 0], [0, 0, 1]]\<rparr>"
  by (simp add: getClampingConstraintMatrix_def matrix_eval_defs twoGroup_fields
        groupA_def groupB_def skelA_def skelB_def)

lemma twoGroup_massedClamping:
  "getMassedClampingConstraintMatrix twoGroupSnapshot
   = Inr \<lparr>rows = 3, cols = 3, coeffs = [[1 / 2, 0, 0], [0, 1 / 4, 0], [0, 0, 1 / 5]]\<rparr>"
  by (simp add: getMassedClampingConstraintMatrix_def matrix_eval_defs twoGroup_fields
        groupA_def groupB_def skelA_def skelB_def)

lemma twoGroup_massedUpperBound:
  "getMassedUpperBoundConstraintMatrix twoGroupSnapshot
   = Inr \<lparr>rows = 3, cols = 0, coeffs = [[], [], []]\<rparr>"
  by (simp add: getMassedUpperBoundConstraintMatrix_def matrix_eval_defs twoGroup_fields
        groupA_def groupB_def skelA_def skelB_def)

lemma twoGroup_upperBound:
  "getUpperBoundConstraintMatrix twoGroupSnapshot
   = Inr \<lparr>rows = 3, cols = 0, coeffs = [[], [], []]\<rparr>"
  by (simp add: getUpperBoundConstraintMatrix_def matrix_eval_defs twoGroup_fields
        groupA_def groupB_def skelA_def skelB_def)

lemma twoGroup_bouncing:
  "getBouncingConstraintMatrix twoGroupSnapshot
   = Inr \<lparr>rows = 3, cols = 0, coeffs = [[], [], []]\<rparr>"
  by (simp add: getBouncingConstraintMatrix_def matrix_eval_defs twoGroup_fields
        groupA_def groupB_def skelA_def skelB_def)

lemma twoGroup_mapping:
  "getUpperBoundMappingMatrix twoGroupSnapshot = Inr \<lparr>rows = 0, cols = 3, coeffs = []\<rparr>"
  by (simp add: getUpperBoundMappingMatrix_def placeMapping_def assign_block_def Zero_def
        mk_matrix_def twoGroup_fields groupA_def groupB_def Let_def)

lemma twoGroup_bounce:
  "getBounceDiagonals junk twoGroupSnapshot = Inr [1, 1, 1, junk 3]"
  by (simp add: getBounceDiagonals_def vector_eval_defs twoGroup_fields groupA_def groupB_def)

lemma twoGroup_mass:
  "getMassMatrix twoGroupSnapshot
   = Inr \<lparr>rows = 3, cols = 3, coeffs = [[2, 0, 0], [0, 4, 0], [0, 0, 5]]\<rparr>"
  "getInvMassMatrix twoGroupSnapshot
   = Inr \<lparr>rows = 3, cols = 3, coeffs = [[1 / 2, 0, 0], [0, 1 / 4, 0], [0, 0, 1 / 5]]\<rparr>"
  by (simp_all add: getMassMatrix_def getInvMassMatrix_def placeSkeletonBlock_def
      assign_block_def snapshot_defs Zero_def mk_matrix_def coeff_def upt_rec Let_def)

lemma twoGroup_skeletons: "map fst (worldSkeletons twoGroupWorld) = [skelA, skelB]"
  by (simp add: twoGroupWorld_def)

lemma free_invMass:
  "getInvMassMatrix freeSnapshot
   = Inr \<lparr>rows = 3, cols = 3, coeffs = [[1 / 2, 0, 0], [0, 1 / 4, 0], [0, 0, 1 / 5]]\<rparr>"
  by (simp add: getInvMassMatrix_def placeSkeletonBlock_def assign_block_def free_fields
      skelA_def skelB_def Zero_def mk_matrix_def coeff_def upt_rec Let_def)

text \<open>
  In the two-group world the assembled bounce diagonal has four entries and the
  pseudo-inverse three columns, so the product in \<open>getProjectionIntoClampsMatrix\<close> fails.
\<close>

lemma twoGroup_projection:
  "getProjectionIntoClampsMatrix pinv junk twoGroupSnapshot = Inl DimensionMismatch"
  by (simp add: getProjectionIntoClampsMatrix_def twoGroup_clamping twoGroup_massedClamping
        twoGroup_massedUpperBound twoGroup_mapping twoGroup_bounce twoGroup_fields
        mat_mul_def mat_add_def transpose_m_def scale_def scaleByInverse_def
        pseudoInverse_def asDiagonal_def)

text \<open>
  With the shorter vector first, the second copy of \<open>assembleVector\<close> runs past the end
  of the collected vector.
\<close>

lemma swapped_impulses:
  "getContactConstraintImpluses junk swappedSnapshot = Inl IndexOutOfRange"
  by (simp add: getContactConstraintImpluses_def vector_eval_defs swapped_fields
        groupA_def groupB_def)

section \<open>Vector assembly\<close>

text \<open>
  Claim C1. For a snapshot with a non-empty list of constraint groups,
  \<open>assembleVector\<close> should return the concatenation of the groups' vectors, so that the
  length of the result is the sum of their lengths. The first loop of the source adds
  the length of the vector of group \<open>0\<close> at every index. In the two-group world the
  impulse vectors are \<open>[3, 4]\<close> and \<open>[6]\<close>: the source returns a vector of length four,
  whose last entry was never written, where the concatenation has length three.
\<close>

theorem assembleVector_two_groups_length:
  "getContactConstraintImpluses junk twoGroupSnapshot = Inr [3, 4, 6, junk 3]
   \<and> concat (map (\<lambda>g. contactConstraintImpluses (snd g)) (mGradientMatrices twoGroupSnapshot))
     = [3, 4, 6]"
  by (simp add: getContactConstraintImpluses_def vector_eval_defs twoGroup_fields
        groupA_def groupB_def)

lemma assembleVector_not_assert:
  assumes "\<And>g. getv g \<noteq> Inl AssertionFailed"
  shows "assembleVector getv junk groups \<noteq> Inl AssertionFailed"
proof -
  have a: "sizeLoopBody getv groups i sz \<noteq> Inl AssertionFailed" for i sz
    using assms by (auto simp: sizeLoopBody_def andThen_eq_Inl elemAt_def)
  have b: "collectLoopBody getv groups i st \<noteq> Inl AssertionFailed" for i st
    using assms
    by (auto simp: collectLoopBody_def andThen_eq_Inl elemAt_def assign_segment_def)
  show ?thesis
    using assms forEach_never[of _ "sizeLoopBody getv groups" AssertionFailed, OF a]
      forEach_never[of _ "collectLoopBody getv groups" AssertionFailed, OF b]
    by (auto simp: assembleVector_def andThen_eq_Inl elemAt_def)
qed

text \<open>
  Claim C8. When the real-valued \<open>assembleVector\<close> is called with the bounce
  diagonals, the restitution diagonals or the contact impulses, the assertion of the
  real-valued \<open>getVectorToAssemble\<close> does not fail, neither in a direct call nor inside
  \<open>assembleVector\<close>. The integer specialisation passes its assertion for the contact
  mapping kind and for no other.
\<close>

theorem vector_dispatch_assertions:
  "(whichVector \<in> {BOUNCE_DIAGONALS, RESTITUTION_DIAGONALS, CONTACT_CONSTRAINT_IMPULSES} \<longrightarrow>
      getVectorToAssemble_VectorXd matrices whichVector \<noteq> Inl AssertionFailed
      \<and> assembleVector_VectorXd junk s whichVector \<noteq> Inl AssertionFailed)
   \<and> ((getVectorToAssemble_VectorXi matrices kind \<noteq> Inl AssertionFailed)
        = (kind = CONTACT_CONSTRAINT_MAPPINGS))
   \<and> ((getVectorToAssemble_VectorXi matrices kind = Inr (contactConstraintMappings matrices))
        = (kind = CONTACT_CONSTRAINT_MAPPINGS))"
proof -
  have "assembleVector_VectorXd junk s whichVector \<noteq> Inl AssertionFailed"
    if "whichVector \<in> {BOUNCE_DIAGONALS, RESTITUTION_DIAGONALS, CONTACT_CONSTRAINT_IMPULSES}"
    unfolding assembleVector_VectorXd_def
    by (rule assembleVector_not_assert)
       (use that in \<open>auto simp: getVectorToAssemble_VectorXd_def\<close>)
  then show ?thesis
    by (auto simp: getVectorToAssemble_VectorXd_def getVectorToAssemble_VectorXi_def)
qed

theorem vector_dispatch_assertions_witness:
  "BOUNCE_DIAGONALS \<in> {BOUNCE_DIAGONALS, RESTITUTION_DIAGONALS, CONTACT_CONSTRAINT_IMPULSES}
   \<and> getVectorToAssemble_VectorXd groupA BOUNCE_DIAGONALS \<noteq> Inl AssertionFailed
   \<and> assembleVector_VectorXd zeroJunk twoGroupSnapshot BOUNCE_DIAGONALS \<noteq> Inl AssertionFailed
   \<and> getVectorToAssemble_VectorXi groupA CONTACT_CONSTRAINT_MAPPINGS = Inr [- 1, - 1]
   \<and> getVectorToAssemble_VectorXi groupA BOUNCE_DIAGONALS = Inl AssertionFailed"
  using vector_dispatch_assertions [of BOUNCE_DIAGONALS groupA zeroJunk twoGroupSnapshot
          CONTACT_CONSTRAINT_MAPPINGS]
  by (simp add: getVectorToAssemble_VectorXi_def groupA_def)

section \<open>World mass matrices\<close>

lemma blockDiagonal_below:
  "a < c \<or> b < c \<Longrightarrow> blockDiagonal c Bs f a b = f a b"
  by (induction Bs arbitrary: c) auto

lemma blockDiagonal_cong:
  "f a b = g a b \<Longrightarrow> blockDiagonal c Bs f a b = blockDiagonal c Bs g a b"
  by (induction Bs arbitrary: c) auto

text \<open>The loop of \<open>getMassMatrix\<close> lays the skeletons' matrices along the diagonal.\<close>

lemma placeSkeletonBlock_loop:
  assumes "wf_matrix M" "rows M = n" "cols M = n"
    and "c + sum_list (map numDofs skels) \<le> n"
    and "list_all (\<lambda>sk. rows (pick sk) = numDofs sk \<and> cols (pick sk) = numDofs sk) skels"
  shows "forEach skels (placeSkeletonBlock pick) (M, c)
         = Inr (mk_matrix n n (blockDiagonal c (map pick skels) (coeff M)),
                c + sum_list (map numDofs skels))"
  using assms
proof (induction skels arbitrary: M c)
  case Nil
  then show ?case using mk_matrix_coeff[of M] by simp
next
  case (Cons sk skels)
  let ?d = "numDofs sk"
  let ?M1 = "mk_matrix n n (\<lambda>i j. if c \<le> i \<and> i < c + ?d \<and> c \<le> j \<and> j < c + ?d
                               then coeff (pick sk) (i - c) (j - c) else coeff M i j)"
  have step: "placeSkeletonBlock pick sk (M, c) = Inr (?M1, c + ?d)"
    using Cons.prems by (simp add: placeSkeletonBlock_def assign_block_def Let_def)
  have rest: "forEach skels (placeSkeletonBlock pick) (?M1, c + ?d)
        = Inr (mk_matrix n n (blockDiagonal (c + ?d) (map pick skels) (coeff ?M1)),
               c + ?d + sum_list (map numDofs skels))"
    using Cons.prems by (intro Cons.IH) (simp_all add: add.assoc)
  have eq: "mk_matrix n n (blockDiagonal (c + ?d) (map pick skels) (coeff ?M1))
          = mk_matrix n n (blockDiagonal c (map pick (sk # skels)) (coeff M))"
  proof (rule mk_matrix_cong)
    fix i j assume ij: "i < n" "j < n"
    show "blockDiagonal (c + ?d) (map pick skels) (coeff ?M1) i j
        = blockDiagonal c (map pick (sk # skels)) (coeff M) i j"
    proof (cases "c \<le> i \<and> i < c + ?d \<and> c \<le> j \<and> j < c + ?d")
      case True
      then have "blockDiagonal (c + ?d) (map pick skels) (coeff ?M1) i j = coeff ?M1 i j"
        by (intro blockDiagonal_below) simp
      then show ?thesis using True ij Cons.prems(5) by simp
    next
      case False
      have "blockDiagonal (c + ?d) (map pick skels) (coeff ?M1) i j
          = blockDiagonal (c + ?d) (map pick skels) (coeff M) i j"
        by (rule blockDiagonal_cong) (use False ij in auto)
      then show ?thesis using False Cons.prems(5) by auto
    qed
  qed
  show ?case using step rest eq by (simp add: add.assoc del: blockDiagonal.simps)
qed

lemma blockDiagonal_block:
  assumes "i < length Bs" "a < rows (Bs ! i)" "b < rows (Bs ! i)"
  shows "blockDiagonal c Bs f (c + sum_list (map rows (take i Bs)) + a)
           (c + sum_list (map rows (take i Bs)) + b) = coeff (Bs ! i) a b"
  using assms
proof (induction Bs arbitrary: c i)
  case Nil
  then show ?case by simp
next
  case (Cons B Bs)
  show ?case
  proof (cases i)
    case 0
    with Cons.prems show ?thesis by simp
  next
    case (Suc k)
    with Cons.prems have "blockDiagonal (c + rows B) Bs f
             (c + rows B + sum_list (map rows (take k Bs)) + a)
             (c + rows B + sum_list (map rows (take k Bs)) + b) = coeff (Bs ! k) a b"
      by (intro Cons.IH) simp_all
    then show ?thesis using Suc by (simp add: add.assoc)
  qed
qed

lemma blockDiagonal_coupling:
  assumes "i < length Bs" "j < length Bs" "i \<noteq> j" "a < rows (Bs ! i)" "b < rows (Bs ! j)"
  shows "blockDiagonal c Bs f (c + sum_list (map rows (take i Bs)) + a)
           (c + sum_list (map rows (take j Bs)) + b)
         = f (c + sum_list (map rows (take i Bs)) + a) (c + sum_list (map rows (take j Bs)) + b)"
  using assms
proof (induction Bs arbitrary: c i j)
  case Nil
  then show ?case by simp
next
  case (Cons B Bs)
  show ?case
  proof (cases i)
    case i0: 0
    then obtain k where j: "j = Suc k" using Cons.prems(3) by (cases j) auto
    have "blockDiagonal (c + rows B) Bs f (c + a) (c + rows B + sum_list (map rows (take k Bs)) + b)
          = f (c + a) (c + rows B + sum_list (map rows (take k Bs)) + b)"
      by (rule blockDiagonal_below) (use Cons.prems i0 in simp)
    then show ?thesis using i0 j by (simp add: add.assoc)
  next
    case (Suc k)
    note ik = Suc
    show ?thesis
    proof (cases j)
      case 0
      have "blockDiagonal (c + rows B) Bs f (c + rows B + sum_list (map rows (take k Bs)) + a) (c + b)
          = f (c + rows B + sum_list (map rows (take k Bs)) + a) (c + b)"
        by (rule blockDiagonal_below) (use Cons.prems 0 in simp)
      then show ?thesis using ik 0 by (simp add: add.assoc)
    next
      case (Suc l)
      with ik Cons.prems have "blockDiagonal (c + rows B) Bs f
             (c + rows B + sum_list (map rows (take k Bs)) + a)
             (c + rows B + sum_list (map rows (take l Bs)) + b)
           = f (c + rows B + sum_list (map rows (take k Bs)) + a)
               (c + rows B + sum_list (map rows (take l Bs)) + b)"
        by (intro Cons.IH) simp_all
      then show ?thesis using ik Suc by (simp add: add.assoc)
    qed
  qed
qed

lemma worldOffset_bound:
  "i < length skels \<Longrightarrow> worldOffset skels i + numDofs (skels ! i) \<le> sum_list (map numDofs skels)"
proof (induction skels arbitrary: i)
  case Nil
  then show ?case by simp
next
  case (Cons sk skels)
  then show ?case by (cases i) (auto simp: worldOffset_def)
qed

lemma picked_rows:
  assumes "list_all (\<lambda>sk. rows (pick sk) = numDofs sk \<and> P sk) skels"
  shows "sum_list (map rows (take i (map pick skels))) = worldOffset skels i"
proof -
  have "map rows (take i (map pick skels)) = map numDofs (take i skels)"
    using assms by (auto simp: take_map list_all_iff dest: in_set_takeD)
  then show ?thesis by (simp add: worldOffset_def)
qed

lemma worldMatrix_blockDiagonal:
  assumes shapes: "list_all (\<lambda>sk. rows (pick sk) = numDofs sk
                     \<and> (cols (pick sk) = numDofs sk \<and> wf_matrix (pick sk))) skels"
    and n: "n = sum_list (map numDofs skels)"
  shows "\<exists>M. forEach skels (placeSkeletonBlock pick) (Zero n n, 0) = Inr (M, n)
     \<and> rows M = n \<and> cols M = n
     \<and> (\<forall>i<length skels.
           block M (worldOffset skels i) (worldOffset skels i)
             (numDofs (skels ! i)) (numDofs (skels ! i)) = Inr (pick (skels ! i)))
     \<and> (\<forall>i<length skels. \<forall>j<length skels. i \<noteq> j \<longrightarrow>
           (\<forall>a<numDofs (skels ! i). \<forall>b<numDofs (skels ! j).
              coeff M (worldOffset skels i + a) (worldOffset skels j + b) = 0))"
proof -
  let ?Bs = "map pick skels"
  let ?f = "coeff (Zero n n :: 'a matrix)"
  let ?M = "mk_matrix n n (blockDiagonal 0 ?Bs ?f)"
  have shapes': "list_all (\<lambda>sk. rows (pick sk) = numDofs sk \<and> cols (pick sk) = numDofs sk) skels"
    using shapes by (simp add: list_all_iff)
  have loop: "forEach skels (placeSkeletonBlock pick) (Zero n n, 0) = Inr (?M, n)"
    using placeSkeletonBlock_loop[of "Zero n n" n 0 skels pick] shapes' n
    by (simp add: Zero_def)
  have off: "sum_list (map rows (take i ?Bs)) = worldOffset skels i" for i
    by (rule picked_rows[OF shapes])
  have blk: "block ?M (worldOffset skels i) (worldOffset skels i)
             (numDofs (skels ! i)) (numDofs (skels ! i)) = Inr (pick (skels ! i))"
    if i: "i < length skels" for i
  proof -
    let ?d = "numDofs (skels ! i)"
    let ?o = "worldOffset skels i"
    have sh: "rows (pick (skels ! i)) = ?d" "cols (pick (skels ! i)) = ?d"
      "wf_matrix (pick (skels ! i))"
      using shapes i by (auto simp: list_all_length)
    have bound: "?o + ?d \<le> n" using worldOffset_bound[OF i] n by simp
    have "mk_matrix ?d ?d (\<lambda>a b. coeff ?M (?o + a) (?o + b))
          = mk_matrix ?d ?d (coeff (pick (skels ! i)))"
    proof (rule mk_matrix_cong)
      fix a b assume ab: "a < ?d" "b < ?d"
      have "blockDiagonal 0 ?Bs ?f (0 + sum_list (map rows (take i ?Bs)) + a)
              (0 + sum_list (map rows (take i ?Bs)) + b) = coeff (?Bs ! i) a b"
        by (rule blockDiagonal_block) (use i ab sh in simp_all)
      then show "coeff ?M (?o + a) (?o + b) = coeff (pick (skels ! i)) a b"
        using ab bound i by (simp add: off)
    qed
    also have "\<dots> = pick (skels ! i)" using mk_matrix_coeff[OF sh(3)] sh by simp
    finally show ?thesis using bound by (simp add: block_def)
  qed
  have cpl: "coeff ?M (worldOffset skels i + a) (worldOffset skels j + b) = 0"
    if ij: "i < length skels" "j < length skels" "i \<noteq> j"
      and ab: "a < numDofs (skels ! i)" "b < numDofs (skels ! j)" for i j a b
  proof -
    have bi: "worldOffset skels i + a < n" using worldOffset_bound[OF ij(1)] ab n by simp
    have bj: "worldOffset skels j + b < n" using worldOffset_bound[OF ij(2)] ab n by simp
    have sh: "rows (?Bs ! i) = numDofs (skels ! i)" "rows (?Bs ! j) = numDofs (skels ! j)"
      using shapes ij by (auto simp: list_all_length)
    have "blockDiagonal 0 ?Bs ?f (0 + sum_list (map rows (take i ?Bs)) + a)
              (0 + sum_list (map rows (take j ?Bs)) + b)
          = ?f (0 + sum_list (map rows (take i ?Bs)) + a) (0 + sum_list (map rows (take j ?Bs)) + b)"
      by (rule blockDiagonal_coupling) (use ij ab sh in simp_all)
    then show ?thesis using bi bj by (simp add: off)
  qed
  show ?thesis using loop blk cpl by (intro exI[of _ ?M]) simp
qed

text \<open>
  Claim C9. The world mass matrix and the world inverse mass matrix of a snapshot are
  block diagonal: both are assembled, they are square of the size of the world's degrees
  of freedom, the block at the world offset of each skeleton is the skeleton's own
  (inverse) mass matrix, and every coefficient whose row belongs to one skeleton and
  whose column belongs to another is zero. (The skeletons' own matrices are square, of
  the size of their degrees of freedom.)
\<close>

theorem mass_matrices_block_diagonal:
  assumes "list_all (\<lambda>e. massShapes (fst e)) (worldSkeletons world)"
    and "s = newBackpropSnapshot world position velocity torques"
    and "skels = map fst (worldSkeletons world)"
  shows "\<exists>M Minv. getMassMatrix s = Inr M \<and> getInvMassMatrix s = Inr Minv
     \<and> mSkeletons s = skels
     \<and> rows M = mNumDOFs s \<and> cols M = mNumDOFs s
     \<and> rows Minv = mNumDOFs s \<and> cols Minv = mNumDOFs s
     \<and> (\<forall>i<length skels.
           block M (worldOffset skels i) (worldOffset skels i)
             (numDofs (skels ! i)) (numDofs (skels ! i)) = Inr (massMatrix (skels ! i))
         \<and> block Minv (worldOffset skels i) (worldOffset skels i)
             (numDofs (skels ! i)) (numDofs (skels ! i)) = Inr (invMassMatrix (skels ! i)))
     \<and> (\<forall>i<length skels. \<forall>j<length skels. i \<noteq> j \<longrightarrow>
           (\<forall>a<numDofs (skels ! i). \<forall>b<numDofs (skels ! j).
              coeff M (worldOffset skels i + a) (worldOffset skels j + b) = 0
              \<and> coeff Minv (worldOffset skels i + a) (worldOffset skels j + b) = 0))"
proof -
  let ?n = "mNumDOFs s"
  have sk: "mSkeletons s = skels" and n: "?n = sum_list (map numDofs skels)"
    using assms(2,3) by (simp_all add: newBackpropSnapshot_fields comp_def)
  have m: "list_all (\<lambda>sk. rows (massMatrix sk) = numDofs sk
             \<and> (cols (massMatrix sk) = numDofs sk \<and> wf_matrix (massMatrix sk))) skels"
    and i: "list_all (\<lambda>sk. rows (invMassMatrix sk) = numDofs sk
             \<and> (cols (invMassMatrix sk) = numDofs sk \<and> wf_matrix (invMassMatrix sk))) skels"
    using assms(1,3) by (auto simp: list_all_iff massShapes_def)
  from worldMatrix_blockDiagonal[OF m n] obtain M where
    M: "forEach skels (placeSkeletonBlock massMatrix) (Zero ?n ?n, 0) = Inr (M, ?n)"
      "rows M = ?n" "cols M = ?n"
      "\<forall>i<length skels. block M (worldOffset skels i) (worldOffset skels i)
             (numDofs (skels ! i)) (numDofs (skels ! i)) = Inr (massMatrix (skels ! i))"
      "\<forall>i<length skels. \<forall>j<length skels. i \<noteq> j \<longrightarrow>
           (\<forall>a<numDofs (skels ! i). \<forall>b<numDofs (skels ! j).
              coeff M (worldOffset skels i + a) (worldOffset skels j + b) = 0)"
    by blast
  from worldMatrix_blockDiagonal[OF i n] obtain Minv where
    Minv: "forEach skels (placeSkeletonBlock invMassMatrix) (Zero ?n ?n, 0) = Inr (Minv, ?n)"
      "rows Minv = ?n" "cols Minv = ?n"
      "\<forall>i<length skels. block Minv (worldOffset skels i) (worldOffset skels i)
             (numDofs (skels ! i)) (numDofs (skels ! i)) = Inr (invMassMatrix (skels ! i))"
      "\<forall>i<length skels. \<forall>j<length skels. i \<noteq> j \<longrightarrow>
           (\<forall>a<numDofs (skels ! i). \<forall>b<numDofs (skels ! j).
              coeff Minv (worldOffset skels i + a) (worldOffset skels j + b) = 0)"
    by blast
  have "getMassMatrix s = Inr M" "getInvMassMatrix s = Inr Minv"
    using M(1) Minv(1) sk by (simp_all add: getMassMatrix_def getInvMassMatrix_def)
  then show ?thesis using M(2-5) Minv(2-5) sk by (intro exI[of _ M] exI[of _ Minv]) simp
qed

theorem mass_matrices_block_diagonal_witness:
  "list_all (\<lambda>e. massShapes (fst e)) (worldSkeletons twoGroupWorld)
   \<and> getMassMatrix twoGroupSnapshot
     = Inr \<lparr>rows = 3, cols = 3, coeffs = [[2, 0, 0], [0, 4, 0], [0, 0, 5]]\<rparr>
   \<and> (\<exists>M Minv. getMassMatrix twoGroupSnapshot = Inr M
         \<and> getInvMassMatrix twoGroupSnapshot = Inr Minv
         \<and> block M (worldOffset [skelA, skelB] 1) (worldOffset [skelA, skelB] 1) 1 1
           = Inr (massMatrix skelB)
         \<and> block Minv (worldOffset [skelA, skelB] 1) (worldOffset [skelA, skelB] 1) 1 1
           = Inr (invMassMatrix skelB)
         \<and> coeff M (worldOffset [skelA, skelB] 0 + 1) (worldOffset [skelA, skelB] 1 + 0) = 0)"
proof -
  have shapes: "list_all (\<lambda>e. massShapes (fst e)) (worldSkeletons twoGroupWorld)"
    by (simp add: twoGroupWorld_def massShapes_def wf_matrix_def skelA_def skelB_def)
  from mass_matrices_block_diagonal [OF shapes twoGroupSnapshot_def twoGroup_skeletons [symmetric]]
  obtain M Minv where
    M: "getMassMatrix twoGroupSnapshot = Inr M" "getInvMassMatrix twoGroupSnapshot = Inr Minv"
      "\<forall>i<length [skelA, skelB].
         block M (worldOffset [skelA, skelB] i) (worldOffset [skelA, skelB] i)
           (numDofs ([skelA, skelB] ! i)) (numDofs ([skelA, skelB] ! i))
         = Inr (massMatrix ([skelA, skelB] ! i))
       \<and> block Minv (worldOffset [skelA, skelB] i) (worldOffset [skelA, skelB] i)
           (numDofs ([skelA, skelB] ! i)) (numDofs ([skelA, skelB] ! i))
         = Inr (invMassMatrix ([skelA, skelB] ! i))"
      "\<forall>i<length [skelA, skelB]. \<forall>j<length [skelA, skelB]. i \<noteq> j \<longrightarrow>
           (\<forall>a<numDofs ([skelA, skelB] ! i). \<forall>b<numDofs ([skelA, skelB] ! j).
              coeff M (worldOffset [skelA, skelB] i + a) (worldOffset [skelA, skelB] j + b) = 0
              \<and> coeff Minv (worldOffset [skelA, skelB] i + a)
                  (worldOffset [skelA, skelB] j + b) = 0)"
    by blast
  have d: "numDofs skelB = 1" "numDofs skelA = 2" by (simp_all add: skelA_def skelB_def)
  have one: "block M (worldOffset [skelA, skelB] 1) (worldOffset [skelA, skelB] 1) 1 1
             = Inr (massMatrix skelB)
           \<and> block Minv (worldOffset [skelA, skelB] 1) (worldOffset [skelA, skelB] 1) 1 1
             = Inr (invMassMatrix skelB)"
    using M(3) [rule_format, of 1] d by simp
  have zero: "coeff M (worldOffset [skelA, skelB] 0 + 1) (worldOffset [skelA, skelB] 1 + 0) = 0"
    using M(4) [rule_format, of 0 1 1 0] d by simp
  show ?thesis using shapes M(1,2) one zero twoGroup_mass(1) by auto
qed

section \<open>Jacobians\<close>

text \<open>
  Claim C4. \<open>getProjectionIntoClampsMatrix\<close> should return
  \<open>(1/h) * pinv(F) * diag(bounceDiagonals) * transpose(A_c)\<close> for every snapshot, with
  \<open>F = transpose(A_c) * (V_c + V_ub * E)\<close>. The source computes this expression, and takes
  the bounce diagonals from \<open>assembleVector\<close>. In the two-group world, with two and one
  clamping contacts, that vector has four entries instead of three, the diagonal matrix
  is \<open>4 \<times> 4\<close> where \<open>pinv(F)\<close> is \<open>3 \<times> 3\<close>, and the product is rejected.
\<close>

theorem getProjectionIntoClampsMatrix_two_groups_fails:
  "getProjectionIntoClampsMatrix pinv junk twoGroupSnapshot = Inl DimensionMismatch
   \<and> getBounceDiagonals junk twoGroupSnapshot = Inr [1, 1, 1, junk 3]
   \<and> mNumClamping twoGroupSnapshot = 3"
  by (simp add: twoGroup_projection twoGroup_bounce twoGroup_fields)

text \<open>
  Claim C3. \<open>getForceVelJacobian\<close> should return
  \<open>h * Minv * (I - h * (A_c + A_ub * E) * P_c * Minv)\<close> for every snapshot, without the
  term \<open>A_ub * E\<close> when the upper-bound matrix or the mapping has no coefficients. The
  source computes this expression, with the same test; its \<open>P_c\<close> is the result of
  \<open>getProjectionIntoClampsMatrix\<close>, which in the two-group world does not return.
\<close>

theorem getForceVelJacobian_two_groups_fails:
  "getForceVelJacobian pinv junk twoGroupSnapshot = Inl DimensionMismatch"
  by (simp add: getForceVelJacobian_def twoGroup_clamping twoGroup_upperBound twoGroup_mapping
        twoGroup_projection)

text \<open>
  Claim C5. When the assembled bouncing constraint matrix has no columns, that is when
  the total bouncing count is zero, \<open>getPosPosJacobian\<close> returns the identity of the size
  of the world's degrees of freedom, whatever the solver of the least-squares system and
  the content of fresh storage are.
\<close>

theorem getPosPosJacobian_no_bounce_identity:
  assumes "getBouncingConstraintMatrix s = Inr A_b" and "cols A_b = 0"
  shows "getPosPosJacobian solve junkW junkV junkX s = Inr (Identity (mNumDOFs s) (mNumDOFs s))
         \<and> mNumBouncing s = 0"
  using assms assembleMatrix_dims[of s BOUNCING A_b]
  by (simp add: getPosPosJacobian_def msize_def getBouncingConstraintMatrix_def)

theorem getPosPosJacobian_no_bounce_identity_witness:
  "getBouncingConstraintMatrix twoGroupSnapshot
     = Inr \<lparr>rows = 3, cols = 0, coeffs = [[], [], []]\<rparr>
   \<and> cols \<lparr>rows = 3, cols = 0, coeffs = [[], [], []] :: real list list\<rparr> = 0
   \<and> getPosPosJacobian zeroSolve zeroJunk zeroJunk zeroJunk twoGroupSnapshot
     = Inr \<lparr>rows = 3, cols = 3, coeffs = [[1, 0, 0], [0, 1, 0], [0, 0, 1]]\<rparr>"
  using getPosPosJacobian_no_bounce_identity
          [of twoGroupSnapshot "\<lparr>rows = 3, cols = 0, coeffs = [[], [], []]\<rparr>"
              zeroSolve zeroJunk zeroJunk zeroJunk]
  by (simp add: twoGroup_bouncing twoGroup_fields Identity_def mk_matrix_def upt_rec)

lemma assembleMatrix_nogroup:
  assumes "mGradientMatrices s = []" "mNumClamping s = 0" "mNumUpperBound s = 0"
    "mNumBouncing s = 0"
  shows "assembleMatrix s k = Inr (Zero (mNumDOFs s) 0)"
  using assms by (simp add: assembleMatrix_def)

text \<open>Without groups the projection is assembled and has no rows.\<close>

lemma projection_nogroup:
  fixes s :: "('a::field) BackpropSnapshot"
  assumes "mGradientMatrices s = []" "mNumClamping s = 0" "mNumUpperBound s = 0"
    "mNumBouncing s = 0"
  shows "\<exists>P. getProjectionIntoClampsMatrix pinv junk s = Inr P
             \<and> rows P = 0 \<and> cols P = mNumDOFs s"
  using assms
  by (simp add: getProjectionIntoClampsMatrix_def getClampingConstraintMatrix_def
      getMassedClampingConstraintMatrix_def getMassedUpperBoundConstraintMatrix_def
      assembleMatrix_nogroup getUpperBoundMappingMatrix_def getBounceDiagonals_def
      assembleVector_VectorXd_def assembleVector_def UninitializedVec_def scaleByInverse_def
      msize_def mat_mul_def mat_add_def Zero_def transpose_m_def pseudoInverse_def
      asDiagonal_def scale_def)

text \<open>
  Claim C6. For a snapshot of a world in which no skeleton has a constraint group,
  the list of groups is empty and the three column counts are zero,
  \<open>getForceVelJacobian\<close> returns the timestep times the assembled world inverse mass
  matrix, and \<open>getPosPosJacobian\<close> returns the identity.
\<close>

theorem no_groups_jacobians:
  fixes s :: "('a::field) BackpropSnapshot"
  assumes "list_all (\<lambda>e. snd e = None) (worldSkeletons world)"
    and "s = newBackpropSnapshot world position velocity torques"
    and "getInvMassMatrix s = Inr Minv"
  shows "mGradientMatrices s = [] \<and> mNumClamping s = 0 \<and> mNumUpperBound s = 0
     \<and> mNumBouncing s = 0
     \<and> getForceVelJacobian pinv junk s = Inr (scale (timeStep world) Minv)
     \<and> getPosPosJacobian solve junkW junkV junkX s = Inr (Identity (mNumDOFs s) (mNumDOFs s))"
proof -
  let ?n = "mNumDOFs s"
  let ?h = "mTimeStep s"
  note g = newBackpropSnapshot_nogroup[OF assms(1), of position velocity torques, folded assms(2)]
  have h: "?h = timeStep world" using assms(2) by (simp add: newBackpropSnapshot_fields)
  from projection_nogroup[OF g, of pinv junk] obtain P where
    P: "getProjectionIntoClampsMatrix pinv junk s = Inr P" "rows P = 0" "cols P = ?n"
    by blast
  note sh = getInvMassMatrix_shape[OF assms(3)]
  have p1: "mat_mul (scale ?h (Zero ?n 0)) P = Inr (Zero ?n ?n)"
    using mat_mul_empty_inner[of "scale ?h (Zero ?n 0)" P] P by simp
  have p2: "mat_mul (Zero ?n ?n) Minv = Inr (Zero ?n ?n)"
    using Zero_mat_mul[of Minv ?n ?n] sh by simp
  have fin: "mat_mul (scale ?h Minv) (Identity ?n ?n) = Inr (scale ?h Minv)"
    by (rule mat_mul_Identity) (use sh in simp_all)
  have fv: "getForceVelJacobian pinv junk s = Inr (scale ?h Minv)"
    using g P assms(3) p1 p2 fin
    by (simp add: getForceVelJacobian_def getClampingConstraintMatrix_def
        getUpperBoundConstraintMatrix_def assembleMatrix_nogroup getUpperBoundMappingMatrix_def
        msize_def Identity_sub_Zero)
  have pp: "getPosPosJacobian solve junkW junkV junkX s = Inr (Identity ?n ?n)"
    using g by (simp add: getPosPosJacobian_def getBouncingConstraintMatrix_def
        assembleMatrix_nogroup msize_def)
  show ?thesis using g fv pp h by simp
qed

theorem no_groups_jacobians_witness:
  "list_all (\<lambda>e. snd e = None) (worldSkeletons freeWorld)
   \<and> getInvMassMatrix freeSnapshot
     = Inr \<lparr>rows = 3, cols = 3, coeffs = [[1 / 2, 0, 0], [0, 1 / 4, 0], [0, 0, 1 / 5]]\<rparr>
   \<and> getForceVelJacobian zeroPinv zeroJunk freeSnapshot
     = Inr \<lparr>rows = 3, cols = 3,
            coeffs = [[1 / 2000, 0, 0], [0, 1 / 4000, 0], [0, 0, 1 / 5000]]\<rparr>
   \<and> getPosPosJacobian zeroSolve zeroJunk zeroJunk zeroJunk freeSnapshot
     = Inr \<lparr>rows = 3, cols = 3, coeffs = [[1, 0, 0], [0, 1, 0], [0, 0, 1]]\<rparr>"
proof -
  have none: "list_all (\<lambda>e. snd e = None) (worldSkeletons freeWorld)"
    by (simp add: freeWorld_def)
  have h: "timeStep freeWorld = 1 / 1000" by (simp add: freeWorld_def)
  show ?thesis
    using none no_groups_jacobians [OF none freeSnapshot_def free_invMass, of zeroPinv zeroJunk
                      zeroSolve zeroJunk zeroJunk zeroJunk]
    by (simp add: free_invMass free_fields h scale_def Identity_def mk_matrix_def coeff_def
          upt_rec)
qed

section \<open>The estimation loop\<close>

text \<open>
  Claim C7. \<open>start\<close> on a running loop changes nothing: the object is the same and no
  thread is created. \<open>stop\<close> on a loop that is not running changes nothing and joins
  nothing. Two calls of \<open>start\<close> on a loop that has no worker create one worker, the
  first.
\<close>

theorem start_stop_idempotent:
  "(mRunning s \<longrightarrow> start worker s = Inr (s, []))
   \<and> (\<not> mRunning t \<longrightarrow> stop t = Inr (t, []))
   \<and> (\<not> mRunning t \<and> mOptimizationThread t = NotAThread \<longrightarrow>
        andThen (start w1 t) (\<lambda>r1. andThen (start w2 (fst r1)) (\<lambda>r2.
          Inr (fst r2, snd r1 @ snd r2)))
        = Inr (t\<lparr>mRunning := True, mOptimizationThread := Joinable w1\<rparr>, [SpawnThread w1]))"
  by (simp add: start_def stop_def)

theorem start_stop_idempotent_witness:
  "mRunning runningSSID \<and> start 2 runningSSID = Inr (runningSSID, [])
   \<and> \<not> mRunning idleSSID \<and> mOptimizationThread idleSSID = NotAThread
   \<and> stop idleSSID = Inr (idleSSID, [])
   \<and> andThen (start 1 idleSSID) (\<lambda>r1. andThen (start 2 (fst r1)) (\<lambda>r2.
          Inr (fst r2, snd r1 @ snd r2)))
      = Inr (runningSSID, [SpawnThread 1])"
  using start_stop_idempotent [of runningSSID 2 idleSSID 1 2]
  by (simp add: runningSSID_def idleSSID_def newSSID_def)

text \<open>
  From a consistent object, and the constructed object is one, no sequence of calls
  assigns to a joinable thread or joins a thread that is not joinable, and the object
  stays consistent.
\<close>

lemma pinForce_no_thread_error:
  "e = ThreadTerminate \<or> e = ThreadNotJoinable \<Longrightarrow> forEach is (pinForceStep F) evs \<noteq> Inl e"
  by (rule forEach_never) (auto simp: pinForceStep_def col_def andThen_eq_Inl)

lemma runInference_no_thread_error:
  assumes "e = ThreadTerminate \<or> e = ThreadNotJoinable"
  shows "runInference env t s \<noteq> Inl e"
  using assms pinForce_no_thread_error[of e]
  unfolding runInference_def Let_def
  by (auto simp: andThen_eq_Inl toInt_def ceilDiv_def colInt_def col_def split: if_splits)

lemma runInference_worker:
  "runInference env t s = Inr (s', evs)
   \<Longrightarrow> mRunning s' = mRunning s \<and> mOptimizationThread s' = mOptimizationThread s"
  unfolding runInference_def Let_def by (auto simp: andThen_eq_Inr)

lemma applyCall_workerConsistent:
  assumes "workerConsistent s"
  shows "applyCall c s \<noteq> Inl ThreadTerminate \<and> applyCall c s \<noteq> Inl ThreadNotJoinable
     \<and> (\<forall>s'. applyCall c s = Inr s' \<longrightarrow> workerConsistent s')"
proof (cases c)
  case (RunInference env t)
  show ?thesis
    using assms runInference_no_thread_error[of _ env t s] runInference_worker[of env t s]
    unfolding RunInference
    by (auto simp: andThen_eq_Inl andThen_eq_Inr workerConsistent_def)
qed (use assms in \<open>auto simp: workerConsistent_def setLoss_def setOptimizer_def setProblem_def
     registerSensors_def registerControls_def registerInferListener_def
     setInitialPosEstimator_def start_def stop_def split: thread.splits\<close>)

lemma applyCalls_workerConsistent:
  assumes "workerConsistent s"
  shows "forEach cs applyCall s \<noteq> Inl ThreadTerminate
     \<and> forEach cs applyCall s \<noteq> Inl ThreadNotJoinable
     \<and> (\<forall>s'. forEach cs applyCall s = Inr s' \<longrightarrow> workerConsistent s')"
  using assms
proof (induction cs arbitrary: s)
  case Nil
  then show ?case by simp
next
  case (Cons c cs)
  show ?case
  proof (cases "applyCall c s")
    case (Inl e)
    then show ?thesis using applyCall_workerConsistent[OF Cons.prems, of c] by auto
  next
    case (Inr s1)
    then have "workerConsistent s1" using applyCall_workerConsistent[OF Cons.prems, of c] by simp
    from Cons.IH[OF this] show ?thesis using Inr by simp
  qed
qed

lemma newSSID_workerConsistent: "workerConsistent (newSSID w l p d)"
  by (simp add: workerConsistent_def newSSID_def)

lemmas inference_eval_defs = exampleEnv_def exampleSimWorld_def newVectorLog_def
  runInference_def exampleCeilMillis_def toInt_def ceilDiv_def exampleValues_def
  exampleOptimize_def pinForceStep_def col_def colInt_def Zero_def mk_matrix_def coeff_def
  upt_rec

text \<open>
  Claim C2, as stated: a turn of the worker loop runs an inference cycle if and only if
  the available control history is at least \<open>planningHistoryMillis\<close>, so also when the
  two are equal. The source compares with \<open>>\<close>: with exactly 1000 milliseconds of
  history and a planning history of 1000 the turn does nothing, and a loop that polls
  once and is then stopped has run no inference cycle.
\<close>

theorem loop_exact_history_spins:
  "sint (exactHistory (mControlLog runningSSID) 5000) = sint (mPlanningHistoryMillis runningSSID)
   \<and> optimizationThreadIteration exactHistory exampleEnv 5000 runningSSID
     = Inr (runningSSID, [])
   \<and> optimizationThreadLoop exactHistory [pollTurn, stopTurn] runningSSID []
     = Some (Inr (stopRequested runningSSID, []))"
  by (simp add: optimizationThreadIteration_def exactHistory_def runningSSID_def idleSSID_def
        newSSID_def pollTurn_def stopTurn_def noInterference_def stopRequested_def)

text \<open>
  Claim C2, amended: a turn of the worker loop runs an inference cycle if and only if
  the available control history is strictly greater than \<open>planningHistoryMillis\<close>. When
  it is, the turn is the inference cycle, announced on the output, and the loop goes on
  from the object the cycle leaves; when it is not (equal history included), the turn
  does nothing and the loop goes on to the next check with the object as it is.
\<close>

theorem loop_runs_iff_longer_history:
  "(sint (mPlanningHistoryMillis s) < sint (availableHistoryBefore (mControlLog s) now) \<longrightarrow>
      optimizationThreadIteration availableHistoryBefore env now s
      = andThen (runInference env now s) (\<lambda>r. Inr (fst r, Print ''Running inference'' # snd r)))
   \<and> (\<not> sint (mPlanningHistoryMillis s) < sint (availableHistoryBefore (mControlLog s) now) \<longrightarrow>
      optimizationThreadIteration availableHistoryBefore env now s = Inr (s, []))
   \<and> ((optimizationThreadIteration availableHistoryBefore env now s \<noteq> Inr (s, []))
      = (sint (mPlanningHistoryMillis s) < sint (availableHistoryBefore (mControlLog s) now)))
   \<and> (mRunning (others t s0)
        \<and> \<not> sint (mPlanningHistoryMillis (others t s0))
              < sint (availableHistoryBefore (mControlLog (others t s0)) (clock t)) \<longrightarrow>
      optimizationThreadLoop availableHistoryBefore (t # ts) s0 trace
      = optimizationThreadLoop availableHistoryBefore ts (others t s0) trace)
   \<and> (mRunning (others t s0)
        \<and> sint (mPlanningHistoryMillis (others t s0))
              < sint (availableHistoryBefore (mControlLog (others t s0)) (clock t)) \<longrightarrow>
      optimizationThreadLoop availableHistoryBefore (t # ts) s0 trace
      = (case runInference (answers t) (clock t) (others t s0) of
           Inl e \<Rightarrow> Some (Inl e)
         | Inr r \<Rightarrow> optimizationThreadLoop availableHistoryBefore ts (fst r)
                      (trace @ Print ''Running inference'' # snd r)))"
proof -
  have a: "optimizationThreadIteration availableHistoryBefore env now s \<noteq> Inr (s, [])"
    if "sint (mPlanningHistoryMillis s) < sint (availableHistoryBefore (mControlLog s) now)"
    using that
    by (cases "runInference env now s") (auto simp: optimizationThreadIteration_def Let_def)
  have b: "optimizationThreadLoop availableHistoryBefore (t # ts) s0 trace
      = (case runInference (answers t) (clock t) (others t s0) of
           Inl e \<Rightarrow> Some (Inl e)
         | Inr r \<Rightarrow> optimizationThreadLoop availableHistoryBefore ts (fst r)
                      (trace @ Print ''Running inference'' # snd r))"
    if "mRunning (others t s0)"
       "sint (mPlanningHistoryMillis (others t s0))
              < sint (availableHistoryBefore (mControlLog (others t s0)) (clock t))"
    using that
    by (cases "runInference (answers t) (clock t) (others t s0)")
       (simp_all add: optimizationThreadIteration_def Let_def)
  show ?thesis
    using a b by (auto simp: optimizationThreadIteration_def Let_def)
qed

theorem loop_runs_iff_longer_history_witness:
  "mRunning (others pollTurn runningSSID)
   \<and> \<not> sint (mPlanningHistoryMillis (others pollTurn runningSSID))
         < sint (exactHistory (mControlLog (others pollTurn runningSSID)) (clock pollTurn))
   \<and> optimizationThreadLoop exactHistory [pollTurn, stopTurn] runningSSID []
     = Some (Inr (stopRequested runningSSID, []))
   \<and> sint (mPlanningHistoryMillis (others pollTurn runningSSID))
         < sint (longerHistory (mControlLog (others pollTurn runningSSID)) (clock pollTurn))
   \<and> optimizationThreadLoop longerHistory [pollTurn, stopTurn] runningSSID []
     = Some (Inr (stopRequested (runningSSID\<lparr>mProblem := Some 42, mSolution := Some 77\<rparr>),
                  inferenceTrace))"
proof -
  have two: "replicate 2 (0::real) = [0, 0]" by (simp add: numeral_2_eq_2)
  show ?thesis
    using loop_runs_iff_longer_history
            [of runningSSID exactHistory 5000 exampleEnv pollTurn runningSSID "[stopTurn]" "[]"]
          loop_runs_iff_longer_history
            [of runningSSID longerHistory 5000 exampleEnv pollTurn runningSSID "[stopTurn]" "[]"]
    by (simp add: optimizationThreadIteration_def longerHistory_def exactHistory_def
        runningSSID_def idleSSID_def newSSID_def pollTurn_def stopTurn_def noInterference_def
        stopRequested_def inferenceTrace_def inference_eval_defs two)
qed

lemma startPositions_append: "startPositions (xs @ ys) = startPositions xs @ startPositions ys"
  by (induction xs rule: startPositions.induct) simp_all

lemma startPositions_listeners:
  "startPositions (map (\<lambda>l. InferListener l t p v m d) ls) = []"
  by (induction ls) simp_all

lemma pinned_startPositions:
  assumes "forEach is (pinForceStep F) evs = Inr evs'" and "startPositions evs = []"
  shows "startPositions evs' = []"
proof (rule forEach_invariant[OF assms(1), where P = "\<lambda>e. startPositions e = []"])
  show "startPositions evs = []" by (rule assms(2))
next
  fix x a b
  assume "startPositions a = []" and "pinForceStep F x a = Inr b"
  then show "startPositions b = []"
    by (auto simp: pinForceStep_def andThen_eq_Inr startPositions_append)
qed

lemma pinned_startPositions0:
  "forEach is (pinForceStep F) [] = Inr evs' \<Longrightarrow> startPositions evs' = []"
  using pinned_startPositions[of "is" F "[]" evs'] by simp

text \<open>
  An inference cycle keeps the estimator and sets the start position once, to what the
  estimator returns.
\<close>

lemma runInference_result:
  assumes "runInference env startTime s = Inr (s', evs)"
  shows "mInitialPosEstimator s' = mInitialPosEstimator s
         \<and> (\<exists>sensorHistory. startPositions evs = [mInitialPosEstimator s sensorHistory startTime])"
  using assms unfolding runInference_def Let_def
  by (auto simp: andThen_eq_Inr startPositions_append startPositions_listeners
           dest!: pinned_startPositions0 split: option.splits)

lemma applyCall_estimator:
  assumes "applyCall c s = Inr s'" and "\<not> isSetInitialPosEstimator c"
  shows "mInitialPosEstimator s' = mInitialPosEstimator s"
proof (cases c)
  case (Start w)
  with assms show ?thesis
    by (auto simp: start_def andThen_eq_Inr split: if_splits thread.splits)
next
  case Stop
  with assms show ?thesis
    by (auto simp: stop_def andThen_eq_Inr split: if_splits thread.splits)
next
  case (RunInference env t)
  with assms obtain r where "runInference env t s = Inr r" "s' = fst r"
    by (auto simp: andThen_eq_Inr)
  then show ?thesis using runInference_result[of env t s "fst r" "snd r"] by simp
qed (use assms in \<open>auto simp: setLoss_def setOptimizer_def setProblem_def registerSensors_def
       registerControls_def registerInferListener_def\<close>)

lemma applyCalls_estimator:
  assumes "forEach cs applyCall s = Inr s'" and "list_all (\<lambda>c. \<not> isSetInitialPosEstimator c) cs"
  shows "mInitialPosEstimator s' = mInitialPosEstimator s"
proof (rule forEach_invariant[OF assms(1),
         where P = "\<lambda>x. mInitialPosEstimator x = mInitialPosEstimator s"])
  show "mInitialPosEstimator s = mInitialPosEstimator s" by simp
next
  fix c a b
  assume "c \<in> set cs" "mInitialPosEstimator a = mInitialPosEstimator s" "applyCall c a = Inr b"
  then show "mInitialPosEstimator b = mInitialPosEstimator s"
    using applyCall_estimator[of c a b] assms(2) by (simp add: list_all_iff)
qed

text \<open>
  Claim C10. After the construction of the loop and any calls other than
  \<open>setInitialPosEstimator\<close>, an inference cycle sets the start position of the problem
  once, to the zero vector whose length is the number of degrees of freedom that the
  world had at construction, whatever the collaborators return (the sensor history among
  it) and whatever the timestamp is.
\<close>

theorem default_start_position_zero:
  assumes "forEach calls applyCall (newSSID world loss planningHistoryMillis sensorDim) = Inr s"
    and "list_all (\<lambda>c. \<not> isSetInitialPosEstimator c) calls"
    and "runInference env startTime s = Inr (s', evs)"
  shows "startPositions evs = [replicate (getNumDofs world) 0]"
proof -
  have "mInitialPosEstimator s
        = mInitialPosEstimator (newSSID world loss planningHistoryMillis sensorDim)"
    by (rule applyCalls_estimator[OF assms(1,2)])
  then have "mInitialPosEstimator s = (\<lambda>sensors time. replicate (getNumDofs world) 0)"
    by (simp add: newSSID_def)
  then show ?thesis using runInference_result[OF assms(3)] by auto
qed

lemma example_cycle:
  "\<exists>s s' evs. forEach exampleCalls applyCall (newSSID exampleSimWorld 0 1000 3) = Inr s
   \<and> runInference exampleEnv 5000 s = Inr (s', evs)"
  by (simp add: exampleCalls_def newSSID_def registerControls_def registerSensors_def
     registerInferListener_def start_def logRecord_def inference_eval_defs)

theorem default_start_position_zero_witness:
  "\<exists>s s' evs. forEach exampleCalls applyCall (newSSID exampleSimWorld 0 1000 3) = Inr s
   \<and> list_all (\<lambda>c. \<not> isSetInitialPosEstimator c) exampleCalls
   \<and> runInference exampleEnv 5000 s = Inr (s', evs)
   \<and> startPositions evs = [[0, 0]]"
proof -
  from example_cycle obtain s s' evs where
    run: "forEach exampleCalls applyCall (newSSID exampleSimWorld 0 1000 3) = Inr s"
      "runInference exampleEnv 5000 s = Inr (s', evs)"
    by blast
  have calls: "list_all (\<lambda>c. \<not> isSetInitialPosEstimator c) exampleCalls"
    by (simp add: exampleCalls_def)
  have "startPositions evs = [replicate (getNumDofs exampleSimWorld) 0]"
    by (rule default_start_position_zero [OF run(1) calls run(2)])
  then have "startPositions evs = [[0, 0]]"
    by (simp add: exampleSimWorld_def numeral_2_eq_2)
  then show ?thesis using run calls by blast
qed

end
